theory Spec2Isabelle
  imports Main "HOL-Library.Sublist"
begin

section \<open>Python values\<close>

text \<open>
  The service is Python. A \<open>str\<close> is a \<open>string\<close> whose characters stand for the code
  points below 256. Exceptions are values: a computation that may raise returns
  \<open>exn + 'a\<close>, with \<open>Inl\<close> the exception raised. Every constructor carries the text that
  \<open>str(e)\<close> gives.
\<close>

datatype exn =
    JSONDecodeError string
  | AttributeError string
  | ValueError string
  | ValidationError string
  | KeyError string
  | ProviderError string

fun exn_str :: "exn \<Rightarrow> string" where
  "exn_str (JSONDecodeError m) = m"
| "exn_str (AttributeError m) = m"
| "exn_str (ValueError m) = m"
| "exn_str (ValidationError m) = m"
| "exn_str (KeyError m) = m"
| "exn_str (ProviderError m) = m"

text \<open>\<open>try: body except Exception: handler\<close>.\<close>

definition try_except :: "exn + 'a \<Rightarrow> (exn \<Rightarrow> exn + 'a) \<Rightarrow> exn + 'a" where
  "try_except body handler = (case body of Inl e \<Rightarrow> handler e | Inr v \<Rightarrow> Inr v)"

text \<open>Sequencing of two computations that may raise: the first exception propagates.\<close>

definition bind_exn :: "exn + 'a \<Rightarrow> ('a \<Rightarrow> exn + 'b) \<Rightarrow> exn + 'b" where
  "bind_exn m f = (case m of Inl e \<Rightarrow> Inl e | Inr v \<Rightarrow> f v)"

text \<open>
  A Python \<open>float\<close> is modelled by the two things this program observes of it: whether it
  is non-zero (its truth value) and the text \<open>repr\<close> gives for it.
\<close>

datatype pyfloat = PyFloat (float_nonzero: bool) (float_repr: string)

text \<open>
  The values \<open>json.loads\<close> returns: \<open>None\<close>, \<open>bool\<close>, \<open>int\<close>, \<open>float\<close>, \<open>str\<close>, \<open>list\<close>
  and \<open>dict\<close>. A dict is the association list of its items in insertion order; lookup
  takes the first binding of a key (a dict holds each key once).
\<close>

datatype json =
    JNull
  | JBool bool
  | JInt int
  | JFloat pyfloat
  | JString string
  | JArray "json list"
  | JObject "(string \<times> json) list"

text \<open>The truth value of a Python object, as \<open>not x\<close>, \<open>x or y\<close> and \<open>if x:\<close> read it.\<close>

fun truthy :: "json \<Rightarrow> bool" where
  "truthy JNull = False"
| "truthy (JBool b) = b"
| "truthy (JInt i) = (i \<noteq> 0)"
| "truthy (JFloat f) = float_nonzero f"
| "truthy (JString s) = (s \<noteq> [])"
| "truthy (JArray xs) = (xs \<noteq> [])"
| "truthy (JObject d) = (d \<noteq> [])"

fun type_name :: "json \<Rightarrow> string" where
  "type_name JNull = ''NoneType''"
| "type_name (JBool b) = ''bool''"
| "type_name (JInt i) = ''int''"
| "type_name (JFloat f) = ''float''"
| "type_name (JString s) = ''str''"
| "type_name (JArray xs) = ''list''"
| "type_name (JObject d) = ''dict''"

text \<open>The message of the AttributeError raised by \<open>v.name\<close> when \<open>v\<close> has no such attribute.\<close>

definition no_attribute :: "json \<Rightarrow> string \<Rightarrow> exn" where
  "no_attribute v name =
     AttributeError ([CHR 0x27] @ type_name v @ [CHR 0x27] @ '' object has no attribute '' @
                     [CHR 0x27] @ name @ [CHR 0x27])"

text \<open>\<open>d.get(k)\<close> and \<open>d.get(k, default)\<close> on a dict.\<close>

definition dict_get :: "(string \<times> json) list \<Rightarrow> string \<Rightarrow> json" where
  "dict_get d k = (case map_of d k of None \<Rightarrow> JNull | Some v \<Rightarrow> v)"

definition dict_get_default :: "(string \<times> json) list \<Rightarrow> string \<Rightarrow> json \<Rightarrow> json" where
  "dict_get_default d k dflt = (case map_of d k of None \<Rightarrow> dflt | Some v \<Rightarrow> v)"

subsection \<open>str.strip, str.endswith, str.join\<close>

text \<open>\<open>str.isspace\<close> on the code points below 256.\<close>

definition isspace :: "char \<Rightarrow> bool" where
  "isspace c = (c \<in> set [CHR 0x09, CHR 0x0A, CHR 0x0B, CHR 0x0C, CHR 0x0D,
                          CHR 0x1C, CHR 0x1D, CHR 0x1E, CHR 0x1F, CHR 0x20,
                          CHR 0x85, CHR 0xA0])"

definition lstrip :: "string \<Rightarrow> string" where
  "lstrip s = dropWhile isspace s"

definition rstrip :: "string \<Rightarrow> string" where
  "rstrip s = rev (dropWhile isspace (rev s))"

definition strip :: "string \<Rightarrow> string" where
  "strip s = rstrip (lstrip s)"

definition endswith :: "string \<Rightarrow> string \<Rightarrow> bool" where
  "endswith s suf = (length suf \<le> length s \<and> drop (length s - length suf) s = suf)"

fun join :: "string \<Rightarrow> string list \<Rightarrow> string" where
  "join sep [] = []"
| "join sep [x] = x"
| "join sep (x # y # ys) = x @ sep @ join sep (y # ys)"

subsection \<open>repr and str\<close>

text \<open>
  \<open>repr\<close> of a \<open>str\<close>: single quotes, unless the text has a single quote and no double
  quote; the quote in use and the backslash are escaped, tab, newline and carriage return
  are written \<open>\t\<close>, \<open>\n\<close>, \<open>\r\<close>, and any other character that is not printable is
  written \<open>\xhh\<close>.
\<close>

definition isprintable :: "char \<Rightarrow> bool" where
  "isprintable c =
     (let n = (of_char c :: nat)
      in \<not> (n < 32 \<or> n = 127 \<or> (128 \<le> n \<and> n \<le> 160) \<or> n = 173))"

definition hex2 :: "char \<Rightarrow> string" where
  "hex2 c = [''0123456789abcdef'' ! ((of_char c :: nat) div 16),
             ''0123456789abcdef'' ! ((of_char c :: nat) mod 16)]"

definition repr_char :: "char \<Rightarrow> char \<Rightarrow> string" where
  "repr_char q c =
     (if c = q \<or> c = CHR 0x5C then [CHR 0x5C, c]
      else if c = CHR 0x09 then [CHR 0x5C, CHR ''t'']
      else if c = CHR 0x0A then [CHR 0x5C, CHR ''n'']
      else if c = CHR 0x0D then [CHR 0x5C, CHR ''r'']
      else if isprintable c then [c]
      else [CHR 0x5C, CHR ''x''] @ hex2 c)"

definition py_repr_str :: "string \<Rightarrow> string" where
  "py_repr_str s =
     (let q = (if CHR 0x27 \<in> set s \<and> CHR 0x22 \<notin> set s then CHR 0x22 else CHR 0x27)
      in [q] @ concat (map (repr_char q) s) @ [q])"

text \<open>
  \<open>str\<close> of an \<open>int\<close>: its decimal digits. The interpreter's configurable limit on the
  number of digits converted is a resource limit, like memory, and is not modelled.
\<close>

fun digits10 :: "nat \<Rightarrow> string" where
  "digits10 n =
     (if n < 10 then [''0123456789'' ! n]
      else digits10 (n div 10) @ [''0123456789'' ! (n mod 10)])"

declare digits10.simps [simp del]

definition py_str_int :: "int \<Rightarrow> string" where
  "py_str_int i = (if i < 0 then CHR ''-'' # digits10 (nat (- i)) else digits10 (nat i))"

fun py_repr :: "json \<Rightarrow> string"
  and py_repr_list :: "json list \<Rightarrow> string list"
  and py_repr_items :: "(string \<times> json) list \<Rightarrow> string list" where
  "py_repr JNull = ''None''"
| "py_repr (JBool b) = (if b then ''True'' else ''False'')"
| "py_repr (JInt i) = py_str_int i"
| "py_repr (JFloat f) = float_repr f"
| "py_repr (JString s) = py_repr_str s"
| "py_repr (JArray xs) = ''['' @ join '', '' (py_repr_list xs) @ '']''"
| "py_repr (JObject d) = ''{'' @ join '', '' (py_repr_items d) @ ''}''"
| "py_repr_list [] = []"
| "py_repr_list (x # xs) = py_repr x # py_repr_list xs"
| "py_repr_items [] = []"
| "py_repr_items ((k, v) # kvs) = (py_repr_str k @ '': '' @ py_repr v) # py_repr_items kvs"

text \<open>\<open>str(v)\<close>, which is also what an f-string field \<open>{v}\<close> inserts.\<close>

fun py_str :: "json \<Rightarrow> string" where
  "py_str (JString s) = s"
| "py_str v = py_repr v"

section \<open>The environment: json.loads and pydantic's float field\<close>

text \<open>
  Two library functions are parameters of the model. \<open>json_loads\<close> is \<open>json.loads\<close>: it
  returns the decoded value or raises. \<open>float_field\<close> is pydantic's validation of a value
  that is not \<open>None\<close> against a \<open>float\<close> field (floating-point conversion): it returns
  the float or raises. Every theorem below holds for all values of both.
\<close>

record pylib =
  json_loads :: "string \<Rightarrow> exn + json"
  float_field :: "json \<Rightarrow> exn + pyfloat"

section \<open>The action shapes (src/action\_generator.py, lines 142 to 178)\<close>

datatype SelectorType = ATTRIBUTE_VALUE_SELECTOR | TAG_CONTAINS_SELECTOR | XPATH_SELECTOR

fun SelectorType_name :: "SelectorType \<Rightarrow> string" where
  "SelectorType_name ATTRIBUTE_VALUE_SELECTOR = ''ATTRIBUTE_VALUE_SELECTOR''"
| "SelectorType_name TAG_CONTAINS_SELECTOR = ''TAG_CONTAINS_SELECTOR''"
| "SelectorType_name XPATH_SELECTOR = ''XPATH_SELECTOR''"

fun SelectorType_value :: "SelectorType \<Rightarrow> string" where
  "SelectorType_value ATTRIBUTE_VALUE_SELECTOR = ''attributeValueSelector''"
| "SelectorType_value TAG_CONTAINS_SELECTOR = ''tagContainsSelector''"
| "SelectorType_value XPATH_SELECTOR = ''xpathSelector''"

record Selector =
  sel_type :: SelectorType
  sel_attribute :: "string option"
  sel_value :: string

text \<open>
  The six model classes. \<open>BaseAction\<close>, \<open>NavigateAction\<close> and \<open>WaitAction\<close> hold a
  \<open>Selector | None\<close>; \<open>ClickAction\<close>, \<open>TypeAction\<close> and \<open>SelectAction\<close> redeclare the field
  as \<open>Selector\<close>. The arguments are the fields in the order the class renders them: the
  inherited \<open>type\<close> and \<open>selector\<close> first, then the class's own field.
\<close>

datatype action =
    BaseAction string "Selector option"
  | ClickAction string Selector
  | NavigateAction string "Selector option" "string option"
  | TypeAction string Selector string
  | SelectAction string Selector string
  | WaitAction string "Selector option" "pyfloat option"

fun act_type :: "action \<Rightarrow> string" where
  "act_type (BaseAction t s) = t"
| "act_type (ClickAction t s) = t"
| "act_type (NavigateAction t s u) = t"
| "act_type (TypeAction t s x) = t"
| "act_type (SelectAction t s v) = t"
| "act_type (WaitAction t s w) = t"

fun act_selector :: "action \<Rightarrow> Selector option" where
  "act_selector (BaseAction t s) = s"
| "act_selector (ClickAction t s) = Some s"
| "act_selector (NavigateAction t s u) = s"
| "act_selector (TypeAction t s x) = Some s"
| "act_selector (SelectAction t s v) = Some s"
| "act_selector (WaitAction t s w) = s"

subsection \<open>Validation: what each constructor call accepts\<close>

text \<open>
  pydantic raises \<open>ValidationError\<close> when a field's value does not fit its annotation. The
  error's message is only ever logged by this program; the model carries the name of the
  class in its place. A \<open>str\<close> field accepts a \<open>str\<close> only, a \<open>str | None\<close> field also
  \<open>None\<close>, the enumeration one of its three values.
\<close>

definition SelectorType_of :: "json \<Rightarrow> SelectorType option" where
  "SelectorType_of v =
     (if v = JString ''attributeValueSelector'' then Some ATTRIBUTE_VALUE_SELECTOR
      else if v = JString ''tagContainsSelector'' then Some TAG_CONTAINS_SELECTOR
      else if v = JString ''xpathSelector'' then Some XPATH_SELECTOR
      else None)"

fun str_field :: "json \<Rightarrow> string option" where
  "str_field (JString s) = Some s"
| "str_field v = None"

fun opt_str_field :: "json \<Rightarrow> string option option" where
  "opt_str_field JNull = Some None"
| "opt_str_field (JString s) = Some (Some s)"
| "opt_str_field v = None"

text \<open>
  \<open>Selector(**selector_data)\<close>: \<open>type\<close> and \<open>value\<close> are required, \<open>attribute\<close> defaults
  to \<open>None\<close>, any other key is ignored.
\<close>

definition Selector_new :: "(string \<times> json) list \<Rightarrow> exn + Selector" where
  "Selector_new kw =
     (case map_of kw ''type'' of
        None \<Rightarrow> Inl (ValidationError ''Selector'')
      | Some t \<Rightarrow>
          (case SelectorType_of t of
             None \<Rightarrow> Inl (ValidationError ''Selector'')
           | Some st \<Rightarrow>
               (case opt_str_field (dict_get kw ''attribute'') of
                  None \<Rightarrow> Inl (ValidationError ''Selector'')
                | Some a \<Rightarrow>
                    (case map_of kw ''value'' of
                       None \<Rightarrow> Inl (ValidationError ''Selector'')
                     | Some v \<Rightarrow>
                         (case str_field v of
                            None \<Rightarrow> Inl (ValidationError ''Selector'')
                          | Some s \<Rightarrow>
                              Inr \<lparr>sel_type = st, sel_attribute = a, sel_value = s\<rparr>)))))"

definition BaseAction_new :: "string \<Rightarrow> Selector option \<Rightarrow> exn + action" where
  "BaseAction_new t selector = Inr (BaseAction t selector)"

definition ClickAction_new :: "string \<Rightarrow> Selector option \<Rightarrow> exn + action" where
  "ClickAction_new t selector =
     (case selector of
        None \<Rightarrow> Inl (ValidationError ''ClickAction'')
      | Some s \<Rightarrow> Inr (ClickAction t s))"

definition NavigateAction_new :: "string \<Rightarrow> json \<Rightarrow> exn + action" where
  "NavigateAction_new t url =
     (case opt_str_field url of
        None \<Rightarrow> Inl (ValidationError ''NavigateAction'')
      | Some u \<Rightarrow> Inr (NavigateAction t None u))"

definition TypeAction_new :: "string \<Rightarrow> json \<Rightarrow> Selector option \<Rightarrow> exn + action" where
  "TypeAction_new t text selector =
     (case (str_field text, selector) of
        (Some x, Some s) \<Rightarrow> Inr (TypeAction t s x)
      | _ \<Rightarrow> Inl (ValidationError ''TypeAction''))"

definition SelectAction_new :: "string \<Rightarrow> json \<Rightarrow> Selector option \<Rightarrow> exn + action" where
  "SelectAction_new t val selector =
     (case (str_field val, selector) of
        (Some v, Some s) \<Rightarrow> Inr (SelectAction t s v)
      | _ \<Rightarrow> Inl (ValidationError ''SelectAction''))"

definition WaitAction_new :: "pylib \<Rightarrow> string \<Rightarrow> json \<Rightarrow> exn + action" where
  "WaitAction_new lib t time_seconds =
     (if time_seconds = JNull then Inr (WaitAction t None None)
      else bind_exn (float_field lib time_seconds) (\<lambda>f. Inr (WaitAction t None (Some f))))"

subsection \<open>Rendering: str(obj)\<close>

text \<open>
  \<open>str\<close> of a model is its fields as \<open>name=repr(value)\<close>, separated by one space; \<open>repr\<close>
  of a model is the class name and the same fields, separated by a comma and a space, in
  parentheses; \<open>repr\<close> of an enumeration member is \<open><Class.NAME: repr(value)>\<close>.
\<close>

definition repr_SelectorType :: "SelectorType \<Rightarrow> string" where
  "repr_SelectorType st =
     ''<SelectorType.'' @ SelectorType_name st @ '': '' @ py_repr_str (SelectorType_value st) @ ''>''"

definition repr_opt_str :: "string option \<Rightarrow> string" where
  "repr_opt_str x = (case x of None \<Rightarrow> ''None'' | Some s \<Rightarrow> py_repr_str s)"

definition repr_Selector :: "Selector \<Rightarrow> string" where
  "repr_Selector s =
     ''Selector(type='' @ repr_SelectorType (sel_type s) @
     '', attribute='' @ repr_opt_str (sel_attribute s) @
     '', value='' @ py_repr_str (sel_value s) @ '')''"

definition repr_opt_Selector :: "Selector option \<Rightarrow> string" where
  "repr_opt_Selector x = (case x of None \<Rightarrow> ''None'' | Some s \<Rightarrow> repr_Selector s)"

definition repr_opt_float :: "pyfloat option \<Rightarrow> string" where
  "repr_opt_float x = (case x of None \<Rightarrow> ''None'' | Some f \<Rightarrow> float_repr f)"

fun render :: "action \<Rightarrow> string" where
  "render (BaseAction t s) =
     ''type='' @ py_repr_str t @ '' selector='' @ repr_opt_Selector s"
| "render (ClickAction t s) =
     ''type='' @ py_repr_str t @ '' selector='' @ repr_Selector s"
| "render (NavigateAction t s u) =
     ''type='' @ py_repr_str t @ '' selector='' @ repr_opt_Selector s @
     '' url='' @ repr_opt_str u"
| "render (TypeAction t s x) =
     ''type='' @ py_repr_str t @ '' selector='' @ repr_Selector s @
     '' text='' @ py_repr_str x"
| "render (SelectAction t s v) =
     ''type='' @ py_repr_str t @ '' selector='' @ repr_Selector s @
     '' value='' @ py_repr_str v"
| "render (WaitAction t s w) =
     ''type='' @ py_repr_str t @ '' selector='' @ repr_opt_Selector s @
     '' time_seconds='' @ repr_opt_float w"

section \<open>ActionGenerator.parse\_action (src/action\_generator.py, lines 20 to 66)\<close>

text \<open>Line 40: \<open>data.get("type") or data.get("action")\<close>, on the dict \<open>d\<close>.\<close>

definition get_discriminant :: "(string \<times> json) list \<Rightarrow> json" where
  "get_discriminant d =
     (let t = dict_get d ''type'' in if truthy t then t else dict_get d ''action'')"

text \<open>Lines 44 and 45.\<close>

definition normalize_type :: "string \<Rightarrow> string" where
  "normalize_type action_type =
     (if \<not> endswith action_type ''Action'' then action_type @ ''Action'' else action_type)"

text \<open>Lines 47 and 48.\<close>

definition get_selector :: "(string \<times> json) list \<Rightarrow> exn + Selector option" where
  "get_selector d =
     (case dict_get d ''selector'' of
        JObject selector_data \<Rightarrow> bind_exn (Selector_new selector_data) (\<lambda>s. Inr (Some s))
      | _ \<Rightarrow> Inr None)"

text \<open>Lines 50 to 61.\<close>

definition dispatch ::
  "pylib \<Rightarrow> (string \<times> json) list \<Rightarrow> string \<Rightarrow> Selector option \<Rightarrow> exn + action" where
  "dispatch lib d action_type selector =
     (if action_type = ''ClickAction'' then ClickAction_new action_type selector
      else if action_type = ''NavigateAction'' then
        NavigateAction_new action_type (dict_get d ''url'')
      else if action_type = ''TypeAction'' then
        TypeAction_new action_type (dict_get_default d ''text'' (JString [])) selector
      else if action_type = ''SelectAction'' then
        SelectAction_new action_type (dict_get_default d ''value'' (JString [])) selector
      else if action_type = ''WaitAction'' then
        WaitAction_new lib action_type (dict_get d ''time_seconds'')
      else BaseAction_new action_type selector)"

text \<open>
  Lines 40 to 61, the body of the second \<open>try\<close> up to the constructed object. \<open>data\<close> is
  any decoded value: \<open>.get\<close> exists on a dict only, \<open>.endswith\<close> on a \<open>str\<close> only.
\<close>

definition missing_field :: exn where
  "missing_field =
     ValueError (''Missing '' @ [CHR 0x27] @ ''action'' @ [CHR 0x27] @ ''/'' @
                 [CHR 0x27] @ ''type'' @ [CHR 0x27] @ '' field'')"

definition build_action :: "pylib \<Rightarrow> json \<Rightarrow> exn + action" where
  "build_action lib data =
     (case data of
        JObject d \<Rightarrow>
          (let action_type = get_discriminant d in
           if \<not> truthy action_type then Inl missing_field
           else
             (case action_type of
                JString a \<Rightarrow>
                  bind_exn (get_selector d) (\<lambda>selector. dispatch lib d (normalize_type a) selector)
              | _ \<Rightarrow> Inl (no_attribute action_type ''endswith'')))
      | _ \<Rightarrow> Inl (no_attribute data ''get''))"

text \<open>Lines 31 to 66. Logging is not modelled.\<close>

definition parse_action :: "pylib \<Rightarrow> string \<Rightarrow> exn + string" where
  "parse_action lib action_text =
     (if action_text = [] then Inr action_text
      else
        (case json_loads lib action_text of
           Inl e \<Rightarrow> Inr (strip action_text)
         | Inr data \<Rightarrow>
             try_except
               (bind_exn (build_action lib data) (\<lambda>obj. Inr (render obj)))
               (\<lambda>e. Inr (strip action_text))))"

section \<open>string.Template (src/prompts.py)\<close>

text \<open>
  A template is its text cut at the placeholders: \<open>Lit\<close> is literal text, \<open>Var name\<close> is
  \<open>$name\<close>. The two templates of the program have no \<open>$$\<close>, no braced placeholder and no
  \<open>$\<close> that starts no identifier. \<open>substitute\<close> puts \<open>str\<close> of the keyword argument in
  place of each placeholder, and raises \<open>KeyError\<close> at the first placeholder without one.
\<close>

datatype piece = Lit string | Var string

fun substitute :: "piece list \<Rightarrow> (string \<times> json) list \<Rightarrow> exn + string" where
  "substitute [] kws = Inr []"
| "substitute (Lit s # ps) kws = bind_exn (substitute ps kws) (\<lambda>r. Inr (s @ r))"
| "substitute (Var name # ps) kws =
     (case map_of kws name of
        None \<Rightarrow> Inl (KeyError (py_repr_str name))
      | Some v \<Rightarrow> bind_exn (substitute ps kws) (\<lambda>r. Inr (py_str v @ r)))"

subsection \<open>WEB\_ACTION\_GENERATOR\_PROMPT (lines 3 to 153)\<close>

text \<open>
  The literal text before, between and after the five placeholders \<open>$task\<close>, \<open>$url\<close>,
  \<open>$step_index\<close>, \<open>$previous_actions\<close> and \<open>$optimized_html\<close>, one list element for
  each line of the source.
\<close>

definition action_prompt_text0 :: string where
  \<open>action_prompt_text0 =
     concat
     [''\<newline>'',
      ''You are an ACTION GENERATOR for a web automation system.\<newline>'',
      ''Your ONLY responsibility is to generate the NEXT SINGLE ACTION to take on the webpage.\<newline>'',
      ''You do NOT explain, reason, describe, or summarize.\<newline>'',
      ''You do NOT perform automation yourself.\<newline>'',
      ''You ONLY output a valid JSON action object.\<newline>'',
      ''\<newline>'',
      ''Task:\<newline>'']\<close>

definition action_prompt_text1 :: string where
  \<open>action_prompt_text1 =
     concat
     [''\<newline>'',
      ''\<newline>'',
      ''Current URL:\<newline>'']\<close>

definition action_prompt_text2 :: string where
  \<open>action_prompt_text2 =
     concat
     [''\<newline>'',
      ''\<newline>'',
      ''Step:\<newline>'']\<close>

definition action_prompt_text3 :: string where
  \<open>action_prompt_text3 =
     concat
     [''\<newline>'',
      ''\<newline>'',
      ''Previous Actions:\<newline>'']\<close>

definition action_prompt_text4 :: string where
  \<open>action_prompt_text4 =
     concat
     [''\<newline>'',
      ''\<newline>'',
      ''Current Page HTML (optimized):\<newline>'']\<close>

definition action_prompt_text5 :: string where
  \<open>action_prompt_text5 =
     concat
     [''\<newline>'',
      ''\<newline>'',
      ''Based on the task, the current page state, and previous actions, determine the SINGLE NEXT ACTION to take.\<newline>'',
      ''\<newline>'',
      ''Available Actions\<newline>'',
      ''You may return ONLY ONE of the following actions:\<newline>'',
      ''\<newline>'',
      ''ClickAction\<newline>'',
      ''NavigateAction\<newline>'',
      ''TypeAction\<newline>'',
      ''SelectAction\<newline>'',
      ''WaitAction\<newline>'',
      ''\<newline>'',
      ''Available Selectors\<newline>'',
      ''xpathSelector(value)\<newline>'',
      ''\<newline>'',
      ''Output Rules\<newline>'',
      ''- Output MUST be valid JSON\<newline>'',
      ''- Return ONLY ONE action\<newline>'',
      ''- Do NOT include explanations, comments, reasoning, or extra text\<newline>'',
      ''- Use XPath selectors ONLY\<newline>'',
      ''- The JSON output MUST strictly match ONE of the schemas below\<newline>'',
      ''- Do NOT hallucinate elements that do not exist in the provided HTML\<newline>'',
      ''- Prefer deterministic, visible, and interactable elements\<newline>'',
      ''- If no safe or valid action is possible, return a WaitAction\<newline>'',
      ''\<newline>'',
      ''Action JSON Schemas\<newline>'',
      ''\<newline>'',
      ''Click\<newline>'',
      ''{\<newline>'',
      ''  "action": "ClickAction",\<newline>'',
      ''  "selector": {\<newline>'',
      ''    "type": "xpathSelector",\<newline>'',
      ''    "value": "XPATH_EXPRESSION"\<newline>'',
      ''  }\<newline>'',
      ''}\<newline>'',
      ''\<newline>'',
      ''Navigate\<newline>'',
      ''{\<newline>'',
      ''  "action": "NavigateAction",\<newline>'',
      ''  "url": "TARGET_URL"\<newline>'',
      ''}\<newline>'',
      ''\<newline>'',
      ''Type\<newline>'',
      ''{\<newline>'',
      ''  "action": "TypeAction",\<newline>'',
      ''  "text": "TEXT_TO_TYPE",\<newline>'',
      ''  "selector": {\<newline>'',
      ''    "type": "xpathSelector",\<newline>'',
      ''    "value": "XPATH_EXPRESSION"\<newline>'',
      ''  }\<newline>'',
      ''}\<newline>'',
      ''\<newline>'',
      ''Select\<newline>'',
      ''{\<newline>'',
      ''  "action": "SelectAction",\<newline>'',
      ''  "value": "OPTION_VALUE",\<newline>'',
      ''  "selector": {\<newline>'',
      ''    "type": "xpathSelector",\<newline>'',
      ''    "value": "XPATH_EXPRESSION"\<newline>'',
      ''  }\<newline>'',
      ''}\<newline>'',
      ''\<newline>'',
      ''Wait\<newline>'',
      ''{\<newline>'',
      ''  "action": "WaitAction",\<newline>'',
      ''  "time_seconds": NUMBER\<newline>'',
      ''}\<newline>'',
      ''\<newline>'',
      ''Example Outputs\<newline>'',
      ''\<newline>'',
      ''Example 1: Typing into a login form\<newline>'',
      ''{\<newline>'',
      ''  "action": "TypeAction",\<newline>'',
      ''  "text": "john.doe@example.com",\<newline>'',
      ''  "selector": {\<newline>'',
      ''    "type": "xpathSelector",\<newline>'',
      ''    "value": "//input[@type=\'email\' or @name=\'email\']"\<newline>'',
      ''  }\<newline>'',
      ''}\<newline>'',
      ''\<newline>'',
      ''Example 2: Clicking a button with multiple matching elements\<newline>'',
      ''{\<newline>'',
      ''  "action": "ClickAction",\<newline>'',
      ''  "selector": {\<newline>'',
      ''    "type": "xpathSelector",\<newline>'',
      ''    "value": "(//button[contains(normalize-space(text()), \'Continue\')])[1]"\<newline>'',
      ''  }\<newline>'',
      ''}\<newline>'',
      ''\<newline>'',
      ''Example 3: Selecting an option from a dropdown\<newline>'',
      ''{\<newline>'',
      ''  "action": "SelectAction",\<newline>'',
      ''  "value": "United States",\<newline>'',
      ''  "selector": {\<newline>'',
      ''    "type": "xpathSelector",\<newline>'',
      ''    "value": "//select[@name=\'country\']"\<newline>'',
      ''  }\<newline>'',
      ''}\<newline>'',
      ''\<newline>'',
      ''Example 4: Navigating to a new page explicitly\<newline>'',
      ''{\<newline>'',
      ''  "action": "NavigateAction",\<newline>'',
      ''  "url": "https://example.com/dashboard"\<newline>'',
      ''}\<newline>'',
      ''\<newline>'',
      ''Example 5: Waiting due to loading or missing interactable elements\<newline>'',
      ''{\<newline>'',
      ''  "action": "WaitAction",\<newline>'',
      ''  "time_seconds": 3\<newline>'',
      ''}\<newline>'',
      ''\<newline>'',
      ''Example 6: Clicking a deeply nested element with attributes\<newline>'',
      ''{\<newline>'',
      ''  "action": "ClickAction",\<newline>'',
      ''  "selector": {\<newline>'',
      ''    "type": "xpathSelector",\<newline>'',
      ''    "value": "//div[@role=\'dialog\']//button[@aria-label=\'Close\']"\<newline>'',
      ''  }\<newline>'',
      ''}\<newline>'',
      ''\<newline>'',
      ''Example 7: Typing into a dynamically generated input field\<newline>'',
      ''{\<newline>'',
      ''  "action": "TypeAction",\<newline>'',
      ''  "text": "password123!",\<newline>'',
      ''  "selector": {\<newline>'',
      ''    "type": "xpathSelector",\<newline>'',
      ''    "value": "//input[contains(@id, \'password\')]"\<newline>'',
      ''  }\<newline>'',
      ''}\<newline>'']\<close>

definition WEB_ACTION_GENERATOR_PROMPT :: "piece list" where
  "WEB_ACTION_GENERATOR_PROMPT =
     [Lit action_prompt_text0,
      Var ''task'',
      Lit action_prompt_text1,
      Var ''url'',
      Lit action_prompt_text2,
      Var ''step_index'',
      Lit action_prompt_text3,
      Var ''previous_actions'',
      Lit action_prompt_text4,
      Var ''optimized_html'',
      Lit action_prompt_text5]"

subsection \<open>HTML\_OPTIMIZER\_PROMPT (lines 157 to 250)\<close>

text \<open>
  The literal text before, between and after the two placeholders \<open>$url\<close> and
  \<open>$raw_html\<close>.
\<close>

definition html_prompt_text0 :: string where
  \<open>html_prompt_text0 =
     concat
     [''\<newline>'',
      ''You are an HTML OPTIMIZER for a web automation system.\<newline>'',
      ''Your ONLY responsibility is to transform raw HTML into a CLEAN, REDUCED, and ACTION-RELEVANT HTML representation.\<newline>'',
      ''You do NOT generate actions.\<newline>'',
      ''You do NOT explain your reasoning.\<newline>'',
      ''You ONLY output optimized HTML.\<newline>'',
      ''\<newline>'',
      ''Input URL:\<newline>'']\<close>

definition html_prompt_text1 :: string where
  \<open>html_prompt_text1 =
     concat
     [''\<newline>'',
      ''\<newline>'',
      ''Raw HTML:\<newline>'']\<close>

definition html_prompt_text2 :: string where
  \<open>html_prompt_text2 =
     concat
     [''\<newline>'',
      ''\<newline>'',
      ''Optimization Goals\<newline>'',
      ''- Preserve elements that are potentially interactable or useful for automation\<newline>'',
      ''- Remove noise, duplication, and irrelevant content\<newline>'',
      ''- Keep the DOM structure understandable and minimal\<newline>'',
      ''- Ensure the optimized HTML can be reliably used to generate XPath selectors\<newline>'',
      ''\<newline>'',
      ''Elements to PRESERVE\<newline>'',
      ''- Interactive elements:\<newline>'',
      ''  - button\<newline>'',
      ''  - a (links)\<newline>'',
      ''  - input\<newline>'',
      ''  - textarea\<newline>'',
      ''  - select\<newline>'',
      ''  - option\<newline>'',
      ''- Elements with attributes:\<newline>'',
      ''  - id\<newline>'',
      ''  - name\<newline>'',
      ''  - role\<newline>'',
      ''  - aria-*\<newline>'',
      ''  - type\<newline>'',
      ''  - value\<newline>'',
      ''  - placeholder\<newline>'',
      ''  - href\<newline>'',
      ''  - data-*\<newline>'',
      ''- Elements with visible or actionable text\<newline>'',
      ''- Elements that act as containers for interactable elements (e.g., form, dialog, nav)\<newline>'',
      ''\<newline>'',
      ''Elements to REMOVE\<newline>'',
      ''- script\<newline>'',
      ''- style\<newline>'',
      ''- noscript\<newline>'',
      ''- svg\<newline>'',
      ''- canvas\<newline>'',
      ''- iframe (unless clearly interactive)\<newline>'',
      ''- meta, link, head\<newline>'',
      ''- comments\<newline>'',
      ''- tracking or analytics markup\<newline>'',
      ''- invisible elements (display:none, hidden, aria-hidden=true)\<newline>'',
      ''- excessive nesting with no semantic or functional value\<newline>'',
      ''\<newline>'',
      ''Attribute Rules\<newline>'',
      ''- Keep only attributes useful for XPath generation or element identification\<newline>'',
      ''- Remove inline styles unless they affect visibility\<newline>'',
      ''- Normalize whitespace in text nodes\<newline>'',
      ''- Truncate very long text content if not relevant to interaction\<newline>'',
      ''\<newline>'',
      ''Structural Rules\<newline>'',
      ''- Preserve parent-child relationships where they help identify elements\<newline>'',
      ''- Flatten deeply nested structures when safe\<newline>'',
      ''- Remove duplicate sibling elements if they are identical\<newline>'',
      ''- Keep forms and dialogs intact\<newline>'',
      ''\<newline>'',
      ''Output Rules\<newline>'',
      ''- Output MUST be valid HTML\<newline>'',
      ''- Output ONLY the optimized HTML\<newline>'',
      ''- Do NOT include explanations, comments, markdown, or extra text\<newline>'',
      ''- Do NOT hallucinate elements not present in the raw HTML\<newline>'',
      ''- Do NOT add new attributes or modify values\<newline>'',
      ''- Maintain the original order of elements as much as possible\<newline>'',
      ''\<newline>'',
      ''Example\<newline>'',
      ''\<newline>'',
      ''Raw HTML:\<newline>'',
      ''<div>\<newline>'',
      ''  <script>alert("hi")</script>\<newline>'',
      ''  <form id="loginForm">\<newline>'',
      ''    <label>Email</label>\<newline>'',
      ''    <input type="email" name="email" style="color:red">\<newline>'',
      ''    <input type="password" name="password">\<newline>'',
      ''    <button onclick="submit()">Login</button>\<newline>'',
      ''  </form>\<newline>'',
      ''</div>\<newline>'',
      ''\<newline>'',
      ''Optimized HTML:\<newline>'',
      ''<form id="loginForm">\<newline>'',
      ''  <label>Email</label>\<newline>'',
      ''  <input type="email" name="email">\<newline>'',
      ''  <input type="password" name="password">\<newline>'',
      ''  <button>Login</button>\<newline>'',
      ''</form>\<newline>'']\<close>

definition HTML_OPTIMIZER_PROMPT :: "piece list" where
  "HTML_OPTIMIZER_PROMPT =
     [Lit html_prompt_text0,
      Var ''url'',
      Lit html_prompt_text1,
      Var ''raw_html'',
      Lit html_prompt_text2]"

section \<open>LLMClient.generate (src/llm\_client.py, lines 59 to 85)\<close>

text \<open>
  The client holds the two model handles built at construction. A handle is the provider
  call: it takes the prompt and returns the content of the reply message, a \<open>str\<close> as the
  annotation of \<open>generate\<close> has it, or raises. The arguments \<open>model\<close>, \<open>temperature\<close> and
  \<open>max_tokens\<close> of \<open>generate\<close> are not used by its body and are left out.
\<close>

record LLMClient =
  html_optimization_llm :: "string \<Rightarrow> exn + string"
  action_generation_llm :: "string \<Rightarrow> exn + string"

definition generate :: "LLMClient \<Rightarrow> string \<Rightarrow> bool \<Rightarrow> exn + string" where
  "generate client prompt use_html_optimization_llm =
     (let llm = (if use_html_optimization_llm then html_optimization_llm client
                 else action_generation_llm client)
      in llm prompt)"

section \<open>HTMLOptimizer (src/html\_optimizer.py)\<close>

definition build_optimization_prompt :: "string \<Rightarrow> string \<Rightarrow> string option \<Rightarrow> exn + string" where
  "build_optimization_prompt html url task_context =
     (let raw_html =
        (case task_context of
           None \<Rightarrow> html
         | Some c \<Rightarrow>
             if c \<noteq> [] then ''Task Context:'' @ [CHR 0x0A] @ c @ [CHR 0x0A, CHR 0x0A] @ html
             else html)
      in substitute HTML_OPTIMIZER_PROMPT
           [(''url'', JString url), (''raw_html'', JString raw_html)])"

definition optimize :: "LLMClient \<Rightarrow> string \<Rightarrow> string \<Rightarrow> string option \<Rightarrow> exn + string" where
  "optimize llm_client html url task_context =
     bind_exn (build_optimization_prompt html url task_context) (\<lambda>prompt.
     bind_exn (generate llm_client prompt True) (\<lambda>optimized_html.
     Inr (strip optimized_html)))"

section \<open>ActionGenerator: history, prompt, generate\_action (src/action\_generator.py)\<close>

type_synonym entry = "(string \<times> json) list"

text \<open>
  Lines 131 to 137: the loop over \<open>enumerate(history, 1)\<close>; \<open>i\<close> is the index of the next
  entry and \<open>formatted\<close> the list built so far.
\<close>

fun format_loop :: "nat \<Rightarrow> entry list \<Rightarrow> string list \<Rightarrow> string list" where
  "format_loop i [] formatted = formatted"
| "format_loop i (entry # rest) formatted =
     (let action = dict_get_default entry ''action'' (JString ''unknown'');
          result = dict_get_default entry ''result'' (JString []);
          formatted1 = formatted @ [''Step '' @ py_str_int (int i) @ '': '' @ py_str action];
          formatted2 =
            (if truthy result then formatted1 @ [''  Result: '' @ py_str result]
             else formatted1)
      in format_loop (Suc i) rest formatted2)"

text \<open>Lines 126 to 139, \<open>_format_history\<close>.\<close>

definition format_history :: "entry list \<Rightarrow> string" where
  "format_history history =
     (if history = [] then []
      else join [CHR 0x0A] (format_loop 1 history []))"

text \<open>Lines 106 to 124, \<open>_build_action_prompt\<close>.\<close>

definition build_action_prompt ::
  "string \<Rightarrow> string \<Rightarrow> int \<Rightarrow> entry list \<Rightarrow> string \<Rightarrow> exn + string" where
  "build_action_prompt prompt optimized_html step_index history url =
     (let history_text = format_history history
      in substitute WEB_ACTION_GENERATOR_PROMPT
           [(''task'', JString prompt),
            (''url'', JString url),
            (''step_index'', JInt step_index),
            (''previous_actions'',
               JString (if history_text \<noteq> [] then history_text else ''No previous actions'')),
            (''optimized_html'', JString optimized_html)])"

text \<open>Lines 68 to 104.\<close>

definition generate_action ::
  "LLMClient \<Rightarrow> string \<Rightarrow> string \<Rightarrow> int \<Rightarrow> entry list \<Rightarrow> string \<Rightarrow> exn + string" where
  "generate_action llm_client prompt optimized_html step_index history url =
     bind_exn (build_action_prompt prompt optimized_html step_index history url)
       (\<lambda>action_prompt.
     bind_exn (generate llm_client action_prompt False) (\<lambda>action.
     Inr (strip action)))"

section \<open>The endpoint POST /act (main.py, lines 26 to 110)\<close>

record ActRequest =
  task_id :: string
  prompt :: string
  start_url :: string
  snapshot_html :: string
  step_index :: int
  web_project_id :: string
  history :: "entry list"

record ActResponse =
  resp_action :: string
  resp_task_id :: string
  resp_step_index :: int

text \<open>
  What the handler gives the framework: the response model, sent with status 200, or the
  \<open>HTTPException\<close> with status 500 and its detail.
\<close>

datatype http_response = HTTP_200 ActResponse | HTTP_500 string

text \<open>
  Lines 61 to 102, the body of the \<open>try\<close>. The two orchestrators are module-level objects,
  each with its own client.
\<close>

definition act_body :: "pylib \<Rightarrow> LLMClient \<Rightarrow> LLMClient \<Rightarrow> ActRequest \<Rightarrow> exn + ActResponse" where
  "act_body lib html_optimizer action_generator request =
     bind_exn (optimize html_optimizer (snapshot_html request) (start_url request)
                 (Some (prompt request))) (\<lambda>optimized_html.
     bind_exn (generate_action action_generator (prompt request) optimized_html
                 (step_index request) (history request) (start_url request)) (\<lambda>action.
     bind_exn (parse_action lib action) (\<lambda>action'.
     Inr \<lparr>resp_action = action', resp_task_id = task_id request,
          resp_step_index = step_index request\<rparr>)))"

text \<open>Lines 43 to 110.\<close>

definition act :: "pylib \<Rightarrow> LLMClient \<Rightarrow> LLMClient \<Rightarrow> ActRequest \<Rightarrow> http_response" where
  "act lib html_optimizer action_generator request =
     (case act_body lib html_optimizer action_generator request of
        Inr response \<Rightarrow> HTTP_200 response
      | Inl e \<Rightarrow> HTTP_500 (''Error processing action: '' @ exn_str e))"

section \<open>The claims' readings, in the specification's words\<close>


text \<open>
  The transcript as the specification words it: for the \<open>k\<close>-th entry one line
  \<open>Step k: <action>\<close>, followed by a line \<open>  Result: <result>\<close> when the result is
  non-empty. A result is empty when it is absent or \<open>None\<close>, or an empty string, list or
  dict; a number or a boolean is not empty.
\<close>

definition step_line :: "nat \<Rightarrow> entry \<Rightarrow> string" where
  "step_line k entry =
     ''Step '' @ py_str_int (int k) @ '': '' @
     py_str (dict_get_default entry ''action'' (JString ''unknown''))"

definition result_line :: "entry \<Rightarrow> string" where
  "result_line entry = ''  Result: '' @ py_str (dict_get_default entry ''result'' (JString []))"

definition nonempty_spec :: "json \<Rightarrow> bool" where
  "nonempty_spec v = (v \<noteq> JNull \<and> v \<noteq> JString [] \<and> v \<noteq> JArray [] \<and> v \<noteq> JObject [])"

definition entry_lines_spec :: "nat \<times> entry \<Rightarrow> string list" where
  "entry_lines_spec ke =
     step_line (fst ke) (snd ke) #
     (if nonempty_spec (dict_get (snd ke) ''result'') then [result_line (snd ke)] else [])"

definition history_lines_spec :: "entry list \<Rightarrow> string list" where
  "history_lines_spec hist =
     concat (map entry_lines_spec (zip [1 ..< Suc (length hist)] hist))"

text \<open>
  The lines of a rendered text: the text cut at its newline characters, as
  \<open>text.split("\n")\<close> cuts it. A line is a step line when it starts with \<open>Step\<close> and a
  space.
\<close>

fun rendered_lines :: "string \<Rightarrow> string list" where
  "rendered_lines [] = [[]]"
| "rendered_lines (c # cs) =
     (if c = CHR 0x0A then [] # rendered_lines cs
      else (case rendered_lines cs of
              [] \<Rightarrow> [[c]]
            | l # ls \<Rightarrow> (c # l) # ls))"

definition is_step_line :: "string \<Rightarrow> bool" where
  "is_step_line l = (take 5 l = ''Step '')"

definition is_dict :: "json \<Rightarrow> bool" where
  "is_dict v = (case v of JObject d \<Rightarrow> True | _ \<Rightarrow> False)"

section \<open>Concrete inputs\<close>

text \<open>
  A decoder given by a table: the texts listed decode to the values listed, as
  \<open>json.loads\<close> decodes them, and the decoder raises on any other text. It is used at the
  listed texts and at texts that are not JSON.
\<close>

definition loads_table :: "(string \<times> json) list \<Rightarrow> string \<Rightarrow> exn + json" where
  "loads_table tbl s =
     (case map_of tbl s of
        Some v \<Rightarrow> Inr v
      | None \<Rightarrow> Inl (JSONDecodeError ''Expecting value''))"

definition click_text :: string where
  \<open>click_text =
     ''{"action":"ClickAction","selector":{"type":"xpathSelector","value":"//button"}}''\<close>

definition click_json :: json where
  "click_json =
     JObject [(''action'', JString ''ClickAction''),
              (''selector'', JObject [(''type'', JString ''xpathSelector''),
                                     (''value'', JString ''//button'')])]"

definition short_click_text :: string where
  \<open>short_click_text =
     ''{"type":"Click","selector":{"type":"xpathSelector","value":"//a"}}''\<close>

definition long_click_text :: string where
  \<open>long_click_text =
     ''{"type":"ClickAction","selector":{"type":"xpathSelector","value":"//a"}}''\<close>

definition xpath_a :: "(string \<times> json) list" where
  "xpath_a = [(''type'', JString ''xpathSelector''), (''value'', JString ''//a'')]"

definition short_bad_text :: string where
  \<open>short_bad_text = ''{"type":"Click","selector":{}}''\<close>

definition long_bad_text :: string where
  \<open>long_bad_text = ''{"type":"ClickAction","selector":{}}''\<close>

definition no_selector_text :: string where
  \<open>no_selector_text = '' {"type":"Click"} ''\<close>

definition both_keys_text :: string where
  \<open>both_keys_text = ''{"type":"","action":"NavigateAction"}''\<close>

definition both_keys :: "(string \<times> json) list" where
  "both_keys = [(''type'', JString []), (''action'', JString ''NavigateAction'')]"

definition type_wins_text :: string where
  \<open>type_wins_text = ''{"type":"Navigate","action":"WaitAction"}''\<close>

definition type_wins :: "(string \<times> json) list" where
  "type_wins = [(''type'', JString ''Navigate''), (''action'', JString ''WaitAction'')]"

definition no_keys_text :: string where
  \<open>no_keys_text = ''{"url":"https://example.com"} ''\<close>

definition array_text :: string where
  \<open>array_text = '' [1, 2]''\<close>

definition example_table :: "(string \<times> json) list" where
  "example_table =
     [(click_text, click_json),
      (short_click_text, JObject [(''type'', JString ''Click''), (''selector'', JObject xpath_a)]),
      (long_click_text,
         JObject [(''type'', JString ''ClickAction''), (''selector'', JObject xpath_a)]),
      (short_bad_text, JObject [(''type'', JString ''Click''), (''selector'', JObject [])]),
      (long_bad_text, JObject [(''type'', JString ''ClickAction''), (''selector'', JObject [])]),
      (no_selector_text, JObject [(''type'', JString ''Click'')]),
      (both_keys_text, JObject both_keys),
      (type_wins_text, JObject type_wins),
      (no_keys_text, JObject [(''url'', JString ''https://example.com'')]),
      (array_text, JArray [JInt 1, JInt 2])]"

text \<open>
  No text of the table carries a \<open>time_seconds\<close> value; the float field of the example
  rejects every value.
\<close>

definition example_lib :: pylib where
  "example_lib =
     \<lparr>json_loads = loads_table example_table,
      float_field = (\<lambda>v. Inl (ValidationError ''WaitAction''))\<rparr>"

text \<open>A client whose two handles answer every prompt with a fixed reply.\<close>

definition fixed_client :: "string \<Rightarrow> string \<Rightarrow> LLMClient" where
  "fixed_client html_reply action_reply =
     \<lparr>html_optimization_llm = (\<lambda>prompt. Inr html_reply),
      action_generation_llm = (\<lambda>prompt. Inr action_reply)\<rparr>"

text \<open>A client whose provider call fails.\<close>

definition failing_client :: "string \<Rightarrow> LLMClient" where
  "failing_client msg =
     \<lparr>html_optimization_llm = (\<lambda>prompt. Inl (ProviderError msg)),
      action_generation_llm = (\<lambda>prompt. Inl (ProviderError msg))\<rparr>"

definition example_request :: ActRequest where
  "example_request =
     \<lparr>task_id = ''task_123'',
      prompt = ''Click on the login button'',
      start_url = ''https://example.com'',
      snapshot_html = ''<html><body><button>Login</button></body></html>'',
      step_index = 0,
      web_project_id = ''project_1'',
      history = []\<rparr>"

definition example_history :: "entry list" where
  "example_history =
     [[(''action'', JString ''navigate https://example.com''), (''result'', JString ''Page loaded'')],
      [(''action'', JString ''click #login-btn'')]]"

text \<open>
  A history whose one action has a newline in its text, and a history whose one entry has
  the result 0.
\<close>

definition newline_history :: "entry list" where
  "newline_history =
     [[(''action'', JString (''click #a'' @ [CHR 0x0A] @ ''Step 2: click #b''))]]"

definition zero_result_history :: "entry list" where
  "zero_result_history = [[(''action'', JString ''click #a''), (''result'', JInt 0)]]"

text \<open>What \<open>str\<close> gives for the \<open>ClickAction\<close> built from \<open>click_json\<close>.\<close>

definition click_rendered :: string where
  \<open>click_rendered =
     ''type=\'ClickAction\' selector=Selector(type=<SelectorType.XPATH_SELECTOR: \'xpathSelector\'>, attribute=None, value=\'//button\')''\<close>


definition short_click_rendered :: string where
  \<open>short_click_rendered =
     ''type=\'ClickAction\' selector=Selector(type=<SelectorType.XPATH_SELECTOR: \'xpathSelector\'>, attribute=None, value=\'//a\')''\<close>

text \<open>A reply of the reducer with whitespace around it, and the transcript of \<open>example_history\<close>.\<close>

definition html_reply :: string where
  "html_reply = [CHR 0x0A] @ ''  <html><body><button>Login</button></body></html> '' @ [CHR 0x0A]"

definition example_transcript :: string where
  \<open>example_transcript =
     ''Step 1: navigate https://example.com\<newline>  Result: Page loaded\<newline>Step 2: click #login-btn''\<close>

section \<open>Properties\<close>

subsection \<open>Auxiliary facts\<close>

lemma bind_exn_simps [simp]:
  "bind_exn (Inl e) f = Inl e" "bind_exn (Inr v) f = f v"
  by (simp_all add: bind_exn_def)

lemma try_except_simps [simp]:
  "try_except (Inl e) h = h e" "try_except (Inr v) h = Inr v"
  by (simp_all add: try_except_def)

text \<open>
  \<open>strip\<close> removes whitespace at both ends and nothing else: the string is the result
  between two runs of whitespace, and a non-empty result neither starts nor ends with
  whitespace.
\<close>

lemma strip_decomposition:
  "\<exists>l r. s = l @ strip s @ r \<and> (\<forall>c \<in> set l. isspace c) \<and> (\<forall>c \<in> set r. isspace c)"
proof -
  let ?l = "takeWhile isspace s"
  let ?t = "dropWhile isspace s"
  let ?r = "rev (takeWhile isspace (rev ?t))"
  have "?t = rstrip ?t @ ?r"
    unfolding rstrip_def by (metis rev_append rev_rev_ident takeWhile_dropWhile_id)
  then have "s = ?l @ strip s @ ?r"
    by (metis lstrip_def strip_def takeWhile_dropWhile_id)
  moreover have "\<forall>c \<in> set ?l. isspace c" by (auto dest: set_takeWhileD)
  moreover have "\<forall>c \<in> set ?r. isspace c" by (auto dest: set_takeWhileD)
  ultimately show ?thesis by blast
qed

lemma strip_ends:
  assumes "strip s \<noteq> []"
  shows "\<not> isspace (hd (strip s)) \<and> \<not> isspace (last (strip s))"
proof -
  let ?t = "dropWhile isspace s"
  let ?u = "dropWhile isspace (rev ?t)"
  have st: "strip s = rev ?u" by (simp add: strip_def lstrip_def rstrip_def)
  with assms have u: "?u \<noteq> []" by simp
  then have "\<not> isspace (hd ?u)" by (rule hd_dropWhile)
  with u st have l: "\<not> isspace (last (strip s))" by (simp add: last_rev)
  from u have t: "?t \<noteq> []" by (metis dropWhile.simps(1) rev.simps(1))
  then have ht: "\<not> isspace (hd ?t)" by (rule hd_dropWhile)
  have "rev ?t = takeWhile isspace (rev ?t) @ ?u" by simp
  then have "?t = rev ?u @ rev (takeWhile isspace (rev ?t))"
    by (metis rev_append rev_rev_ident)
  with u have "hd ?t = hd (rev ?u)" by (metis hd_append2 rev_is_Nil_conv)
  with ht st have "\<not> isspace (hd (strip s))" by simp
  with l show ?thesis by blast
qed

lemma parse_action_decoded:
  "s \<noteq> [] \<Longrightarrow> json_loads lib s = Inr data \<Longrightarrow>
   parse_action lib s =
     (case build_action lib data of Inl e \<Rightarrow> Inr (strip s) | Inr obj \<Rightarrow> Inr (render obj))"
  by (simp add: parse_action_def split: sum.splits)

lemma parse_action_undecoded:
  "s \<noteq> [] \<Longrightarrow> json_loads lib s = Inl e \<Longrightarrow> parse_action lib s = Inr (strip s)"
  by (simp add: parse_action_def)

lemma build_action_dict:
  "build_action lib (JObject d) =
     (if \<not> truthy (get_discriminant d) then Inl missing_field
      else case get_discriminant d of
             JString a \<Rightarrow> bind_exn (get_selector d) (dispatch lib d (normalize_type a))
           | v \<Rightarrow> Inl (no_attribute v ''endswith''))"
  by (simp add: build_action_def Let_def split: json.splits)

lemma parse_action_returns: "\<exists>out. parse_action lib s = Inr out"
proof (cases "s = []")
  case True
  then show ?thesis by (simp add: parse_action_def)
next
  case False
  show ?thesis
  proof (cases "json_loads lib s")
    case (Inl x)
    with False show ?thesis by (simp add: parse_action_undecoded)
  next
    case (Inr d)
    with False show ?thesis by (cases "build_action lib d") (simp_all add: parse_action_decoded)
  qed
qed

lemmas example_texts =
  click_text_def short_click_text_def long_click_text_def short_bad_text_def long_bad_text_def
  no_selector_text_def both_keys_text_def type_wins_text_def no_keys_text_def array_text_def

lemma example_loads:
  "json_loads example_lib click_text = Inr click_json"
  "json_loads example_lib short_click_text =
     Inr (JObject [(''type'', JString ''Click''), (''selector'', JObject xpath_a)])"
  "json_loads example_lib long_click_text =
     Inr (JObject [(''type'', JString ''ClickAction''), (''selector'', JObject xpath_a)])"
  "json_loads example_lib short_bad_text =
     Inr (JObject [(''type'', JString ''Click''), (''selector'', JObject [])])"
  "json_loads example_lib long_bad_text =
     Inr (JObject [(''type'', JString ''ClickAction''), (''selector'', JObject [])])"
  "json_loads example_lib no_selector_text = Inr (JObject [(''type'', JString ''Click'')])"
  "json_loads example_lib both_keys_text = Inr (JObject both_keys)"
  "json_loads example_lib type_wins_text = Inr (JObject type_wins)"
  "json_loads example_lib no_keys_text = Inr (JObject [(''url'', JString ''https://example.com'')])"
  "json_loads example_lib array_text = Inr (JArray [JInt 1, JInt 2])"
  by (simp_all add: example_lib_def loads_table_def example_table_def example_texts)

lemma example_loads_plain:
  "json_loads example_lib ''  click #login-btn  '' = Inl (JSONDecodeError ''Expecting value'')"
  by (simp add: example_lib_def loads_table_def example_table_def example_texts)

subsection \<open>The parser\<close>

text \<open>
  Claim C1. \<open>parse_action\<close> returns on every input string and never raises. When the text
  decodes and the body of the second \<open>try\<close> raises (\<open>build_action\<close>; \<open>render\<close> itself cannot
  raise), the result is the input with surrounding whitespace removed. Stage by stage, for
  a decoded object: when no non-empty string is read as discriminant, when building the
  selector raises, and when constructing the action raises.
\<close>

theorem parse_action_never_raises:
  "(\<exists>out. parse_action lib s = Inr out) \<and>
   (s \<noteq> [] \<longrightarrow> json_loads lib s = Inr data \<longrightarrow> build_action lib data = Inl e \<longrightarrow>
      parse_action lib s = Inr (strip s)) \<and>
   (s \<noteq> [] \<longrightarrow> json_loads lib s = Inr (JObject d) \<longrightarrow>
      (\<forall>t. t \<noteq> [] \<longrightarrow> get_discriminant d \<noteq> JString t) \<longrightarrow>
      parse_action lib s = Inr (strip s)) \<and>
   (s \<noteq> [] \<longrightarrow> json_loads lib s = Inr (JObject d) \<longrightarrow> get_selector d = Inl e \<longrightarrow>
      parse_action lib s = Inr (strip s)) \<and>
   (s \<noteq> [] \<longrightarrow> json_loads lib s = Inr (JObject d) \<longrightarrow> get_discriminant d = JString t \<longrightarrow>
      get_selector d = Inr sel \<longrightarrow> dispatch lib d (normalize_type t) sel = Inl e \<longrightarrow>
      parse_action lib s = Inr (strip s))"
proof (intro conjI impI)
  show "\<exists>out. parse_action lib s = Inr out" by (rule parse_action_returns)
next
  assume "s \<noteq> []" "json_loads lib s = Inr data" "build_action lib data = Inl e"
  then show "parse_action lib s = Inr (strip s)" by (simp add: parse_action_decoded)
next
  assume n: "s \<noteq> []" and l: "json_loads lib s = Inr (JObject d)"
    and "\<forall>t. t \<noteq> [] \<longrightarrow> get_discriminant d \<noteq> JString t"
  then have "\<exists>x. build_action lib (JObject d) = Inl x"
    by (cases "get_discriminant d") (auto simp: build_action_dict)
  with n l show "parse_action lib s = Inr (strip s)" by (auto simp: parse_action_decoded)
next
  assume n: "s \<noteq> []" and l: "json_loads lib s = Inr (JObject d)" and "get_selector d = Inl e"
  then have "\<exists>x. build_action lib (JObject d) = Inl x"
    by (cases "get_discriminant d") (simp_all add: build_action_dict)
  with n l show "parse_action lib s = Inr (strip s)" by (auto simp: parse_action_decoded)
next
  assume n: "s \<noteq> []" and l: "json_loads lib s = Inr (JObject d)"
    and "get_discriminant d = JString t" "get_selector d = Inr sel"
    "dispatch lib d (normalize_type t) sel = Inl e"
  then have "\<exists>x. build_action lib (JObject d) = Inl x" by (simp add: build_action_dict)
  with n l show "parse_action lib s = Inr (strip s)" by (auto simp: parse_action_decoded)
qed

lemma strip_no_selector: "strip no_selector_text = ''{\"type\":\"Click\"}''"
  by (simp add: strip_def lstrip_def rstrip_def isspace_def no_selector_text_def)

lemma build_no_selector:
  "build_action example_lib (JObject [(''type'', JString ''Click'')]) = Inl (ValidationError ''ClickAction'')"
  by (simp add: build_action_def get_discriminant_def dict_get_def get_selector_def normalize_type_def endswith_def
     dispatch_def ClickAction_new_def)

theorem parse_action_never_raises_witness:
  "no_selector_text \<noteq> [] \<and>
   json_loads example_lib no_selector_text = Inr (JObject [(''type'', JString ''Click'')]) \<and>
   build_action example_lib (JObject [(''type'', JString ''Click'')]) = Inl (ValidationError ''ClickAction'') \<and>
   parse_action example_lib no_selector_text = Inr ''{\"type\":\"Click\"}''"
proof -
  have n: "no_selector_text \<noteq> []" by (simp add: no_selector_text_def)
  note l = example_loads(6) and b = build_no_selector
  from parse_action_never_raises [where lib = example_lib and s = no_selector_text
      and data = "JObject [(''type'', JString ''Click'')]" and e = "ValidationError ''ClickAction''"]
  have "parse_action example_lib no_selector_text = Inr (strip no_selector_text)"
    using n l b by blast
  then show ?thesis using n l b by (simp add: strip_no_selector)
qed

text \<open>
  Claim C4. On a non-empty string that \<open>json.loads\<close> rejects, \<open>parse_action\<close> returns the
  string with surrounding whitespace removed; the empty string is returned unchanged.
\<close>

theorem parse_action_plain_text:
  "(s \<noteq> [] \<longrightarrow> json_loads lib s = Inl e \<longrightarrow> parse_action lib s = Inr (strip s)) \<and>
   parse_action lib [] = Inr []"
  by (simp add: parse_action_def)

lemma strip_plain: "strip ''  click #login-btn  '' = ''click #login-btn''"
  by (simp add: strip_def lstrip_def rstrip_def isspace_def)

theorem parse_action_plain_text_witness:
  "''  click #login-btn  '' \<noteq> [] \<and>
   json_loads example_lib ''  click #login-btn  '' = Inl (JSONDecodeError ''Expecting value'') \<and>
   parse_action example_lib ''  click #login-btn  '' = Inr ''click #login-btn''"
proof -
  have n: "''  click #login-btn  '' \<noteq> []" by simp
  from parse_action_plain_text [of "''  click #login-btn  ''" example_lib "JSONDecodeError ''Expecting value''"]
  have "parse_action example_lib ''  click #login-btn  '' = Inr (strip ''  click #login-btn  '')"
    using n example_loads_plain by blast
  then show ?thesis using example_loads_plain by (simp add: strip_plain)
qed

lemma build_action_non_dict:
  "\<not> is_dict data \<Longrightarrow> build_action lib data = Inl (no_attribute data ''get'')"
  by (cases data) (simp_all add: build_action_def is_dict_def)

text \<open>
  Claim C10. On a non-empty string that decodes to a value that is not a dict (a number, a
  string, a boolean, \<open>None\<close> or a list), the lookup \<open>data.get\<close> raises \<open>AttributeError\<close>,
  which is caught, and \<open>parse_action\<close> returns the input with surrounding whitespace
  removed.
\<close>

theorem parse_action_non_object:
  "s \<noteq> [] \<Longrightarrow> json_loads lib s = Inr data \<Longrightarrow> \<not> is_dict data \<Longrightarrow>
   build_action lib data = Inl (no_attribute data ''get'') \<and> parse_action lib s = Inr (strip s)"
  by (simp add: build_action_non_dict parse_action_decoded)

lemma strip_array: "strip array_text = ''[1, 2]''"
  by (simp add: strip_def lstrip_def rstrip_def isspace_def array_text_def)

theorem parse_action_non_object_witness:
  "array_text \<noteq> [] \<and> json_loads example_lib array_text = Inr (JArray [JInt 1, JInt 2]) \<and>
   \<not> is_dict (JArray [JInt 1, JInt 2]) \<and>
   parse_action example_lib array_text = Inr ''[1, 2]''"
proof -
  have n: "array_text \<noteq> []" by (simp add: array_text_def)
  have d: "\<not> is_dict (JArray [JInt 1, JInt 2])" by (simp add: is_dict_def)
  from parse_action_non_object [OF n example_loads(10) d]
  show ?thesis using n d example_loads(10) by (simp add: strip_array)
qed

lemma py_repr_str_plain:
  "py_repr_str ''ClickAction'' = [CHR 0x27] @ ''ClickAction'' @ [CHR 0x27]"
  "py_repr_str ''NavigateAction'' = [CHR 0x27] @ ''NavigateAction'' @ [CHR 0x27]"
  "py_repr_str ''xpathSelector'' = [CHR 0x27] @ ''xpathSelector'' @ [CHR 0x27]"
  "py_repr_str ''//button'' = [CHR 0x27] @ ''//button'' @ [CHR 0x27]"
  "py_repr_str ''//a'' = [CHR 0x27] @ ''//a'' @ [CHR 0x27]"
  by (simp_all add: py_repr_str_def repr_char_def isprintable_def Let_def)

lemma build_click_json:
  "build_action lib click_json =
     Inr (ClickAction ''ClickAction''
            \<lparr>sel_type = XPATH_SELECTOR, sel_attribute = None, sel_value = ''//button''\<rparr>)"
  by (simp add: click_json_def build_action_def get_discriminant_def dict_get_def get_selector_def
      normalize_type_def endswith_def dispatch_def ClickAction_new_def Selector_new_def SelectorType_of_def)

lemma render_click_example:
  "render (ClickAction ''ClickAction''
            \<lparr>sel_type = XPATH_SELECTOR, sel_attribute = None, sel_value = ''//button''\<rparr>) = click_rendered"
  by (simp add: click_rendered_def repr_Selector_def repr_SelectorType_def repr_opt_str_def py_repr_str_plain)

lemma click_text_nonempty: "click_text \<noteq> []"
  by (simp add: click_text_def)

lemma click_rendered_xpath: "sublist ''//button'' click_rendered"
proof -
  have "click_rendered =
     (''type='' @ [CHR 0x27] @ ''ClickAction'' @ [CHR 0x27] @
      '' selector=Selector(type=<SelectorType.XPATH_SELECTOR: '' @ [CHR 0x27] @ ''xpathSelector'' @
      [CHR 0x27] @ ''>, attribute=None, value='' @ [CHR 0x27]) @ ''//button'' @ ([CHR 0x27] @ '')'')"
    by (simp add: click_rendered_def)
  then show ?thesis by (metis sublist_appendI)
qed

text \<open>
  Claim C8. Where \<open>json.loads\<close> decodes the text
  \<open>{"action":"ClickAction","selector":{"type":"xpathSelector","value":"//button"}}\<close> to the
  object it denotes, \<open>parse_action\<close> returns the rendering of a \<open>ClickAction\<close> whose selector
  is the xpath \<open>//button\<close>, and the returned string contains \<open>//button\<close>.
\<close>

theorem parse_action_click_example:
  "json_loads lib click_text = Inr click_json \<Longrightarrow>
   parse_action lib click_text =
     Inr (render (ClickAction ''ClickAction''
            \<lparr>sel_type = XPATH_SELECTOR, sel_attribute = None, sel_value = ''//button''\<rparr>)) \<and>
   parse_action lib click_text = Inr click_rendered \<and>
   sublist ''//button'' click_rendered"
proof -
  assume "json_loads lib click_text = Inr click_json"
  then have "parse_action lib click_text =
     Inr (render (ClickAction ''ClickAction''
            \<lparr>sel_type = XPATH_SELECTOR, sel_attribute = None, sel_value = ''//button''\<rparr>))"
    by (simp add: parse_action_decoded click_text_nonempty build_click_json del: render.simps)
  then show ?thesis
    by (simp only: render_click_example click_rendered_xpath simp_thms)
qed

theorem parse_action_click_example_witness:
  "json_loads example_lib click_text = Inr click_json \<and>
   parse_action example_lib click_text = Inr click_rendered \<and>
   sublist ''//button'' click_rendered"
  using parse_action_click_example [OF example_loads(1)] example_loads(1) by blast

lemma dispatch_type: "dispatch lib d t sel = Inr a \<Longrightarrow> act_type a = t"
  by (auto simp: dispatch_def ClickAction_new_def NavigateAction_new_def TypeAction_new_def
      SelectAction_new_def WaitAction_new_def BaseAction_new_def bind_exn_def
      split: if_splits option.splits sum.splits)

lemma dispatch_selector:
  "dispatch lib d t sel = Inr a \<Longrightarrow> t \<in> {''ClickAction'', ''TypeAction'', ''SelectAction''} \<Longrightarrow>
   sel \<noteq> None \<and> act_selector a = sel"
  by (auto simp: dispatch_def ClickAction_new_def TypeAction_new_def SelectAction_new_def
      split: if_splits option.splits)

lemma dispatch_no_selector:
  "t \<in> {''ClickAction'', ''TypeAction'', ''SelectAction''} \<Longrightarrow> \<exists>e. dispatch lib d t None = Inl e"
  by (auto simp: dispatch_def ClickAction_new_def TypeAction_new_def SelectAction_new_def
      split: if_splits option.splits)

lemma build_action_dispatch:
  "build_action lib data = Inr a \<Longrightarrow>
   \<exists>d t sel. data = JObject d \<and> get_discriminant d = JString t \<and> get_selector d = Inr sel \<and>
     dispatch lib d (normalize_type t) sel = Inr a"
proof (cases data)
  case (JObject d)
  assume b: "build_action lib data = Inr a"
  with JObject obtain t where t: "get_discriminant d = JString t"
    by (cases "get_discriminant d") (simp_all add: build_action_dict split: if_splits)
  with b JObject obtain sel where "get_selector d = Inr sel"
    by (cases "get_selector d") (simp_all add: build_action_dict split: if_splits)
  with b JObject t show ?thesis by (simp add: build_action_dict split: if_splits)
qed (simp_all add: build_action_def)


text \<open>
  Claim C5. An action that \<open>build_action\<close> constructs with type \<open>ClickAction\<close>, \<open>TypeAction\<close>
  or \<open>SelectAction\<close> carries a selector, and \<open>parse_action\<close> returns its rendering. When the
  decoded object has a discriminant that normalizes to one of the three and no selector
  is obtained from it (the key is missing, its value is not a dict, or \<open>Selector\<close> rejects
  the dict), the construction raises and \<open>parse_action\<close> returns the input with surrounding
  whitespace removed.
\<close>

theorem click_type_select_carry_selector:
  "(build_action lib data = Inr a \<longrightarrow>
      act_type a \<in> {''ClickAction'', ''TypeAction'', ''SelectAction''} \<longrightarrow>
      act_selector a \<noteq> None \<and>
      (s \<noteq> [] \<longrightarrow> json_loads lib s = Inr data \<longrightarrow> parse_action lib s = Inr (render a))) \<and>
   (s \<noteq> [] \<longrightarrow> json_loads lib s = Inr (JObject d) \<longrightarrow> get_discriminant d = JString t \<longrightarrow>
      normalize_type t \<in> {''ClickAction'', ''TypeAction'', ''SelectAction''} \<longrightarrow>
      (\<forall>sel. get_selector d \<noteq> Inr (Some sel)) \<longrightarrow>
      (\<exists>e. build_action lib (JObject d) = Inl e) \<and> parse_action lib s = Inr (strip s))"
proof (intro conjI impI)
  assume b: "build_action lib data = Inr a"
    and ty: "act_type a \<in> {''ClickAction'', ''TypeAction'', ''SelectAction''}"
  from build_action_dispatch [OF b] obtain d' t' sel where
    disp: "dispatch lib d' (normalize_type t') sel = Inr a" by blast
  from dispatch_type [OF disp] ty
  have "normalize_type t' \<in> {''ClickAction'', ''TypeAction'', ''SelectAction''}" by simp
  from dispatch_selector [OF disp this] show "act_selector a \<noteq> None" by simp
next
  assume "build_action lib data = Inr a" "s \<noteq> []" "json_loads lib s = Inr data"
  then show "parse_action lib s = Inr (render a)"
    by (simp add: parse_action_decoded del: render.simps)
next
  assume n: "s \<noteq> []" and l: "json_loads lib s = Inr (JObject d)"
    and t: "get_discriminant d = JString t"
    and ty: "normalize_type t \<in> {''ClickAction'', ''TypeAction'', ''SelectAction''}"
    and nosel: "\<forall>sel. get_selector d \<noteq> Inr (Some sel)"
  have fails: "\<exists>e. build_action lib (JObject d) = Inl e"
  proof (cases "get_selector d")
    case (Inl e)
    with t show ?thesis by (simp add: build_action_dict)
  next
    case (Inr so)
    with nosel have "so = None" by (cases so) auto
    with Inr t dispatch_no_selector [OF ty, of lib d] show ?thesis
      by (auto simp: build_action_dict)
  qed
  then show "\<exists>e. build_action lib (JObject d) = Inl e" .
  from fails n l show "parse_action lib s = Inr (strip s)"
    by (auto simp: parse_action_decoded)
qed

lemma normalize_type_Click:
  "normalize_type ''Click'' = ''ClickAction''"
  "normalize_type ''ClickAction'' = ''ClickAction''"
  by (simp_all add: normalize_type_def endswith_def)

text \<open>
  Claim C5, at concrete inputs: the click example of the prompt, and a click without a
  selector.
\<close>

theorem click_type_select_carry_selector_witness:
  "build_action example_lib click_json =
     Inr (ClickAction ''ClickAction''
            \<lparr>sel_type = XPATH_SELECTOR, sel_attribute = None, sel_value = ''//button''\<rparr>) \<and>
   act_selector (ClickAction ''ClickAction''
            \<lparr>sel_type = XPATH_SELECTOR, sel_attribute = None, sel_value = ''//button''\<rparr>) \<noteq> None \<and>
   parse_action example_lib click_text =
     Inr (render (ClickAction ''ClickAction''
            \<lparr>sel_type = XPATH_SELECTOR, sel_attribute = None, sel_value = ''//button''\<rparr>)) \<and>
   json_loads example_lib no_selector_text = Inr (JObject [(''type'', JString ''Click'')]) \<and>
   get_selector [(''type'', JString ''Click'')] = Inr None \<and>
   parse_action example_lib no_selector_text = Inr ''{\"type\":\"Click\"}''"
proof -
  let ?a = "ClickAction ''ClickAction''
            \<lparr>sel_type = XPATH_SELECTOR, sel_attribute = None, sel_value = ''//button''\<rparr>"
  let ?d = "[(''type'', JString ''Click'')]"
  have ty: "act_type ?a \<in> {''ClickAction'', ''TypeAction'', ''SelectAction''}" by simp
  have n1: "click_text \<noteq> []" by (rule click_text_nonempty)
  have n2: "no_selector_text \<noteq> []" by (simp add: no_selector_text_def)
  have disc: "get_discriminant ?d = JString ''Click''"
    by (simp add: get_discriminant_def dict_get_def)
  have norm: "normalize_type ''Click'' \<in> {''ClickAction'', ''TypeAction'', ''SelectAction''}"
    by (simp add: normalize_type_Click)
  have sel: "get_selector ?d = Inr None" by (simp add: get_selector_def dict_get_def)
  then have nosel: "\<forall>sel. get_selector ?d \<noteq> Inr (Some sel)" by simp
  from click_type_select_carry_selector [of example_lib click_json ?a click_text]
  have pos: "act_selector ?a \<noteq> None \<and> parse_action example_lib click_text = Inr (render ?a)"
    using build_click_json [of example_lib] ty n1 example_loads(1) by blast
  from click_type_select_carry_selector [of example_lib click_json ?a no_selector_text ?d "''Click''"]
  have "parse_action example_lib no_selector_text = Inr (strip no_selector_text)"
    using n2 example_loads(6) disc norm nosel by blast
  then have neg: "parse_action example_lib no_selector_text = Inr ''{\"type\":\"Click\"}''"
    by (simp only: strip_no_selector)
  from pos neg sel example_loads(6) build_click_json [of example_lib] show ?thesis by blast
qed








lemma endswith_append: "endswith (t @ suf) suf"
  by (simp add: endswith_def)

lemma normalize_type_idem: "normalize_type (normalize_type t) = normalize_type t"
  by (simp add: normalize_type_def endswith_def)

lemma Selector_new_xpath_a:
  "Selector_new xpath_a = Inr \<lparr>sel_type = XPATH_SELECTOR, sel_attribute = None, sel_value = ''//a''\<rparr>"
  by (simp add: Selector_new_def xpath_a_def SelectorType_of_def dict_get_def)

lemma Selector_new_empty: "Selector_new [] = Inl (ValidationError ''Selector'')"
  by (simp add: Selector_new_def)

lemma build_click_with_selector:
  "t = ''Click'' \<or> t = ''ClickAction'' \<Longrightarrow>
   build_action lib (JObject [(''type'', JString t), (''selector'', JObject sel)]) =
     (case Selector_new sel of
        Inl e \<Rightarrow> Inl e
      | Inr x \<Rightarrow> Inr (ClickAction ''ClickAction'' x))"
  by (auto simp: build_action_dict get_discriminant_def dict_get_def get_selector_def
      normalize_type_Click dispatch_def ClickAction_new_def split: sum.splits)

text \<open>
  Claim C6, as amended. A discriminant that does not end in \<open>Action\<close> gets the suffix, and
  one that has it is left alone. For every selector object from which \<open>Selector\<close> can be
  constructed, \<open>parse_action\<close> of the object with type \<open>Click\<close> and of the object with type
  \<open>ClickAction\<close> return the same rendering of a \<open>ClickAction\<close>; for a selector object that
  \<open>Selector\<close> rejects, each call returns its own input text with surrounding whitespace
  removed.
\<close>

theorem click_normalization:
  "(\<not> endswith t ''Action'' \<longrightarrow>
      normalize_type t = t @ ''Action'' \<and> normalize_type (t @ ''Action'') = t @ ''Action'') \<and>
   (endswith t ''Action'' \<longrightarrow> normalize_type t = t) \<and>
   normalize_type (normalize_type t) = normalize_type t \<and>
   (s1 \<noteq> [] \<longrightarrow> s2 \<noteq> [] \<longrightarrow>
    json_loads lib s1 = Inr (JObject [(''type'', JString ''Click''), (''selector'', JObject sel)]) \<longrightarrow>
    json_loads lib s2 =
      Inr (JObject [(''type'', JString ''ClickAction''), (''selector'', JObject sel)]) \<longrightarrow>
    (case Selector_new sel of
       Inr x \<Rightarrow>
         parse_action lib s1 = Inr (render (ClickAction ''ClickAction'' x)) \<and>
         parse_action lib s2 = parse_action lib s1
     | Inl e \<Rightarrow>
         parse_action lib s1 = Inr (strip s1) \<and> parse_action lib s2 = Inr (strip s2)))"
proof (intro conjI impI)
  assume "\<not> endswith t ''Action''"
  then show "normalize_type t = t @ ''Action''" by (simp add: normalize_type_def)
next
  show "normalize_type (t @ ''Action'') = t @ ''Action''"
    by (simp add: normalize_type_def endswith_append)
next
  assume "endswith t ''Action''"
  then show "normalize_type t = t" by (simp add: normalize_type_def)
next
  show "normalize_type (normalize_type t) = normalize_type t" by (rule normalize_type_idem)
next
  assume n: "s1 \<noteq> []" "s2 \<noteq> []"
    and l1: "json_loads lib s1 =
      Inr (JObject [(''type'', JString ''Click''), (''selector'', JObject sel)])"
    and l2: "json_loads lib s2 =
      Inr (JObject [(''type'', JString ''ClickAction''), (''selector'', JObject sel)])"
  show "case Selector_new sel of
       Inr x \<Rightarrow>
         parse_action lib s1 = Inr (render (ClickAction ''ClickAction'' x)) \<and>
         parse_action lib s2 = parse_action lib s1
     | Inl e \<Rightarrow>
         parse_action lib s1 = Inr (strip s1) \<and> parse_action lib s2 = Inr (strip s2)"
    using parse_action_decoded [OF n(1) l1] parse_action_decoded [OF n(2) l2]
    by (simp add: build_click_with_selector del: render.simps split: sum.splits)
qed

lemma render_short_click:
  "render (ClickAction ''ClickAction''
     \<lparr>sel_type = XPATH_SELECTOR, sel_attribute = None, sel_value = ''//a''\<rparr>) = short_click_rendered"
  by (simp add: short_click_rendered_def repr_Selector_def repr_SelectorType_def repr_opt_str_def
      py_repr_str_plain)

text \<open>
  Claim C6 as amended, at concrete inputs with the selector \<open>xpathSelector\<close>, \<open>//a\<close>.
\<close>

theorem click_normalization_witness:
  "\<not> endswith ''Click'' ''Action'' \<and> normalize_type ''Click'' = ''ClickAction'' \<and>
   normalize_type ''ClickAction'' = ''ClickAction'' \<and>
   json_loads example_lib short_click_text =
     Inr (JObject [(''type'', JString ''Click''), (''selector'', JObject xpath_a)]) \<and>
   json_loads example_lib long_click_text =
     Inr (JObject [(''type'', JString ''ClickAction''), (''selector'', JObject xpath_a)]) \<and>
   parse_action example_lib short_click_text = Inr short_click_rendered \<and>
   parse_action example_lib long_click_text = Inr short_click_rendered"
proof -
  have e: "\<not> endswith ''Click'' ''Action''" by (simp add: endswith_def)
  have n: "short_click_text \<noteq> []" "long_click_text \<noteq> []"
    by (simp_all add: short_click_text_def long_click_text_def)
  from click_normalization [of "''Click''" short_click_text long_click_text example_lib xpath_a]
  have norm: "normalize_type ''Click'' = ''Click'' @ ''Action'' \<and>
      normalize_type (''Click'' @ ''Action'') = ''Click'' @ ''Action''"
    using e by blast
  from click_normalization [of "''Click''" short_click_text long_click_text example_lib xpath_a]
  have "case Selector_new xpath_a of
       Inr x \<Rightarrow>
         parse_action example_lib short_click_text = Inr (render (ClickAction ''ClickAction'' x)) \<and>
         parse_action example_lib long_click_text = parse_action example_lib short_click_text
     | Inl e \<Rightarrow>
         parse_action example_lib short_click_text = Inr (strip short_click_text) \<and>
         parse_action example_lib long_click_text = Inr (strip long_click_text)"
    using n example_loads(2) example_loads(3) by blast
  then have p: "parse_action example_lib short_click_text = Inr short_click_rendered \<and>
      parse_action example_lib long_click_text = Inr short_click_rendered"
    by (simp add: Selector_new_xpath_a render_short_click del: render.simps)
  from norm have "normalize_type ''Click'' = ''ClickAction'' \<and>
     normalize_type ''ClickAction'' = ''ClickAction''" by simp
  with e p example_loads(2) example_loads(3) show ?thesis by blast
qed

text \<open>
  Claim C6 as stated fails for the selector object \<open>{}\<close>: \<open>Selector\<close> rejects it, each call
  falls back to its own input, and the two inputs differ.
\<close>

theorem click_normalization_counterexample:
  "json_loads example_lib short_bad_text =
     Inr (JObject [(''type'', JString ''Click''), (''selector'', JObject [])]) \<and>
   json_loads example_lib long_bad_text =
     Inr (JObject [(''type'', JString ''ClickAction''), (''selector'', JObject [])]) \<and>
   parse_action example_lib short_bad_text = Inr short_bad_text \<and>
   parse_action example_lib long_bad_text = Inr long_bad_text \<and>
   parse_action example_lib short_bad_text \<noteq> parse_action example_lib long_bad_text"
proof -
  have n: "short_bad_text \<noteq> []" "long_bad_text \<noteq> []"
    by (simp_all add: short_bad_text_def long_bad_text_def)
  have s: "strip short_bad_text = short_bad_text" "strip long_bad_text = long_bad_text"
    by (simp_all add: strip_def lstrip_def rstrip_def isspace_def short_bad_text_def
        long_bad_text_def)
  have p1: "parse_action example_lib short_bad_text = Inr short_bad_text"
    using parse_action_decoded [OF n(1) example_loads(4)]
    by (simp add: build_click_with_selector Selector_new_empty s)
  have p2: "parse_action example_lib long_bad_text = Inr long_bad_text"
    using parse_action_decoded [OF n(2) example_loads(5)]
    by (simp add: build_click_with_selector Selector_new_empty s)
  have "short_bad_text \<noteq> long_bad_text"
    by (simp add: short_bad_text_def long_bad_text_def)
  with p1 p2 example_loads(4) example_loads(5) show ?thesis by simp
qed

subsection \<open>The orchestrators and the endpoint\<close>

lemma substitute_html_prompt:
  "substitute HTML_OPTIMIZER_PROMPT [(''url'', JString url), (''raw_html'', JString raw)] =
     Inr (html_prompt_text0 @ url @ html_prompt_text1 @ raw @ html_prompt_text2)"
  by (simp add: HTML_OPTIMIZER_PROMPT_def)

lemma substitute_action_prompt:
  "substitute WEB_ACTION_GENERATOR_PROMPT
     [(''task'', JString task), (''url'', JString url), (''step_index'', JInt step),
      (''previous_actions'', JString prev), (''optimized_html'', JString ohtml)] =
   Inr (action_prompt_text0 @ task @ action_prompt_text1 @ url @ action_prompt_text2 @
        py_str_int step @ action_prompt_text3 @ prev @ action_prompt_text4 @ ohtml @
        action_prompt_text5)"
  by (simp add: WEB_ACTION_GENERATOR_PROMPT_def)

lemma build_optimization_prompt_returns:
  "\<exists>p. build_optimization_prompt html url ctx = Inr p"
  by (simp add: build_optimization_prompt_def substitute_html_prompt Let_def)

lemma build_action_prompt_eq:
  "build_action_prompt task ohtml step hist url =
   Inr (action_prompt_text0 @ task @ action_prompt_text1 @ url @ action_prompt_text2 @
        py_str_int step @ action_prompt_text3 @
        (if format_history hist \<noteq> [] then format_history hist else ''No previous actions'') @
        action_prompt_text4 @ ohtml @ action_prompt_text5)"
  unfolding build_action_prompt_def Let_def by (rule substitute_action_prompt)

lemma optimize_reply:
  "build_optimization_prompt html url ctx = Inr p \<Longrightarrow> html_optimization_llm c p = Inr r \<Longrightarrow>
   optimize c html url ctx = Inr (strip r)"
  by (simp add: optimize_def generate_def)

lemma generate_action_reply:
  "build_action_prompt task ohtml step hist url = Inr p \<Longrightarrow> action_generation_llm c p = Inr r \<Longrightarrow>
   generate_action c task ohtml step hist url = Inr (strip r)"
  by (simp add: generate_action_def generate_def)

text \<open>
  Claim C9. Both prompts are always built. Whatever string the provider call returns for
  the prompt, \<open>optimize\<close> returns it with surrounding whitespace removed, and so does
  \<open>generate_action\<close>; nothing else is done to the reply.
\<close>

theorem orchestrators_strip_reply:
  "(\<exists>p. build_optimization_prompt html url ctx = Inr p \<and>
        (\<forall>r. html_optimization_llm c p = Inr r \<longrightarrow> optimize c html url ctx = Inr (strip r))) \<and>
   (\<exists>p. build_action_prompt task ohtml step hist url = Inr p \<and>
        (\<forall>r. action_generation_llm c p = Inr r \<longrightarrow>
             generate_action c task ohtml step hist url = Inr (strip r)))"
proof
  from build_optimization_prompt_returns obtain p where
    p: "build_optimization_prompt html url ctx = Inr p" by blast
  then have "\<forall>r. html_optimization_llm c p = Inr r \<longrightarrow> optimize c html url ctx = Inr (strip r)"
    by (simp add: optimize_reply)
  with p show "\<exists>p. build_optimization_prompt html url ctx = Inr p \<and>
        (\<forall>r. html_optimization_llm c p = Inr r \<longrightarrow> optimize c html url ctx = Inr (strip r))"
    by blast
next
  obtain p where p: "build_action_prompt task ohtml step hist url = Inr p"
    by (simp add: build_action_prompt_eq)
  then have "\<forall>r. action_generation_llm c p = Inr r \<longrightarrow>
      generate_action c task ohtml step hist url = Inr (strip r)"
    by (simp add: generate_action_reply)
  with p show "\<exists>p. build_action_prompt task ohtml step hist url = Inr p \<and>
        (\<forall>r. action_generation_llm c p = Inr r \<longrightarrow>
             generate_action c task ohtml step hist url = Inr (strip r))"
    by blast
qed

lemma strip_html_reply: "strip html_reply = ''<html><body><button>Login</button></body></html>''"
  by (simp add: html_reply_def strip_def lstrip_def rstrip_def isspace_def)

lemma strip_click_reply: "strip ('' '' @ click_text @ [CHR 0x0A]) = click_text"
  by (simp add: click_text_def strip_def lstrip_def rstrip_def isspace_def)

text \<open>
  Claim C9, at a client whose replies carry spaces and newlines around the text.
\<close>

theorem orchestrators_strip_reply_witness:
  "optimize (fixed_client html_reply ('' '' @ click_text @ [CHR 0x0A]))
     ''<html><head></head><body><button>Login</button></body></html>'' ''https://example.com''
     (Some ''Click on the login button'') =
     Inr ''<html><body><button>Login</button></body></html>'' \<and>
   generate_action (fixed_client html_reply ('' '' @ click_text @ [CHR 0x0A]))
     ''Click on the login button'' ''<html><body><button>Login</button></body></html>'' 0 []
     ''https://example.com'' = Inr click_text"
proof -
  let ?c = "fixed_client html_reply ('' '' @ click_text @ [CHR 0x0A])"
  have h: "\<And>p. html_optimization_llm ?c p = Inr html_reply"
    and a: "\<And>p. action_generation_llm ?c p = Inr ('' '' @ click_text @ [CHR 0x0A])"
    by (simp_all add: fixed_client_def)
  from orchestrators_strip_reply [of "''<html><head></head><body><button>Login</button></body></html>''"
      "''https://example.com''" "Some ''Click on the login button''" ?c
      "''Click on the login button''" "''<html><body><button>Login</button></body></html>''" 0 "[]"]
  have "optimize ?c ''<html><head></head><body><button>Login</button></body></html>''
          ''https://example.com'' (Some ''Click on the login button'') = Inr (strip html_reply) \<and>
        generate_action ?c ''Click on the login button''
          ''<html><body><button>Login</button></body></html>'' 0 [] ''https://example.com'' =
          Inr (strip ('' '' @ click_text @ [CHR 0x0A]))"
    using h a by blast
  then show ?thesis by (simp only: strip_html_reply strip_click_reply)
qed

lemma format_loop_items:
  "format_loop i hist formatted =
     formatted @
     concat (map (\<lambda>ke. step_line (fst ke) (snd ke) #
                    (if truthy (dict_get_default (snd ke) ''result'' (JString []))
                     then [result_line (snd ke)] else []))
               (zip [i ..< i + length hist] hist))"
proof (induction hist arbitrary: i formatted)
  case Nil
  then show ?case by simp
next
  case (Cons entry rest)
  have u: "[i ..< i + length (entry # rest)] = i # [Suc i ..< Suc i + length rest]"
    by (simp add: upt_conv_Cons del: upt_Suc)
  show ?case
    unfolding u by (simp add: Cons.IH Let_def step_line_def result_line_def)
qed

lemma format_loop_from_one:
  "format_loop (Suc 0) hist [] =
     concat (map (\<lambda>ke. step_line (fst ke) (snd ke) #
                    (if truthy (dict_get_default (snd ke) ''result'' (JString []))
                     then [result_line (snd ke)] else []))
               (zip [1 ..< Suc (length hist)] hist))"
  by (simp add: format_loop_items del: upt_Suc)

lemma is_step_line_step: "is_step_line (step_line k entry)"
  by (simp add: is_step_line_def step_line_def)

lemma is_step_line_result: "\<not> is_step_line (result_line entry)"
  by (simp add: is_step_line_def result_line_def)

lemma filter_step_items:
  "filter is_step_line
     (concat (map (\<lambda>ke. step_line (fst ke) (snd ke) #
                    (if P ke then [result_line (snd ke)] else [])) kes)) =
   map (\<lambda>ke. step_line (fst ke) (snd ke)) kes"
  by (induction kes) (simp_all add: is_step_line_step is_step_line_result)

lemma step_lines_of_loop:
  "filter is_step_line (format_loop (Suc 0) hist []) =
     map (\<lambda>ke. step_line (fst ke) (snd ke)) (zip [1 ..< Suc (length hist)] hist)"
  unfolding format_loop_from_one by (rule filter_step_items)

lemma join_nonempty: "ls \<noteq> [] \<Longrightarrow> hd ls \<noteq> [] \<Longrightarrow> join sep ls \<noteq> []"
  by (cases "(sep, ls)" rule: join.cases) simp_all

lemma format_loop_nonempty:
  "hist \<noteq> [] \<Longrightarrow> format_loop (Suc 0) hist [] \<noteq> [] \<and> hd (format_loop (Suc 0) hist []) \<noteq> []"
  by (cases hist) (simp_all add: format_loop_items Let_def step_line_def upt_conv_Cons del: upt_Suc)

lemma format_history_nonempty: "hist \<noteq> [] \<Longrightarrow> format_history hist \<noteq> []"
  using format_loop_nonempty [of hist] by (simp add: format_history_def join_nonempty)

lemma truthy_result_default:
  "truthy (dict_get_default entry k (JString [])) = truthy (dict_get entry k)"
  by (simp add: dict_get_default_def dict_get_def split: option.splits)

lemma truthy_nonempty_spec:
  "v = JNull \<or> (\<exists>r. v = JString r) \<Longrightarrow> truthy v = nonempty_spec v"
  by (auto simp: nonempty_spec_def)

lemma format_loop_spec_on_strings:
  assumes "\<forall>entry \<in> set hist.
     dict_get entry ''result'' = JNull \<or> (\<exists>r. dict_get entry ''result'' = JString r)"
  shows "format_loop (Suc 0) hist [] = history_lines_spec hist"
proof -
  have "\<And>ke. ke \<in> set (zip [1 ..< Suc (length hist)] hist) \<Longrightarrow>
      truthy (dict_get_default (snd ke) ''result'' (JString [])) =
      nonempty_spec (dict_get (snd ke) ''result'')"
    using assms by (auto simp: truthy_result_default dest!: set_zip_rightD intro!: truthy_nonempty_spec)
  then show ?thesis
    unfolding format_loop_from_one history_lines_spec_def entry_lines_spec_def
    by (intro arg_cong [where f = concat] map_cong) simp_all
qed

lemma rendered_lines_nonempty: "rendered_lines s \<noteq> []"
  by (induction s) (simp_all split: list.splits)

lemma rendered_lines_prefix:
  "CHR 0x0A \<notin> set l \<Longrightarrow>
   rendered_lines (l @ s) = (l @ hd (rendered_lines s)) # tl (rendered_lines s)"
  using rendered_lines_nonempty [of s]
  by (induction l) (auto split: list.splits)

lemma rendered_lines_one: "CHR 0x0A \<notin> set l \<Longrightarrow> rendered_lines l = [l]"
  using rendered_lines_prefix [of l "[]"] by simp

lemma rendered_lines_join:
  "ls \<noteq> [] \<Longrightarrow> \<forall>l \<in> set ls. CHR 0x0A \<notin> set l \<Longrightarrow> rendered_lines (join [CHR 0x0A] ls) = ls"
proof (induction "[CHR 0x0A]" ls rule: join.induct)
  case 1
  then show ?case by simp
next
  case (2 x)
  then show ?case by (simp add: rendered_lines_one)
next
  case (3 x y ys)
  then show ?case by (simp add: rendered_lines_prefix)
qed

lemma digits10_chars: "set (digits10 n) \<subseteq> set ''0123456789''"
proof (induction n rule: digits10.induct)
  case (1 n)
  show ?case
  proof (cases "n < 10")
    case True
    then have "''0123456789'' ! n \<in> set ''0123456789''" by (intro nth_mem) simp
    with True show ?thesis by (subst digits10.simps) simp
  next
    case False
    have "''0123456789'' ! (n mod 10) \<in> set ''0123456789''" by (intro nth_mem) simp
    with False 1 show ?thesis by (subst digits10.simps) auto
  qed
qed

lemma py_str_int_no_newline: "CHR 0x0A \<notin> set (py_str_int i)"
  using digits10_chars [of "nat i"] digits10_chars [of "nat (- i)"]
  by (auto simp: py_str_int_def)

lemma format_loop_no_newline:
  assumes "\<forall>entry \<in> set hist.
     CHR 0x0A \<notin> set (py_str (dict_get_default entry ''action'' (JString ''unknown''))) \<and>
     CHR 0x0A \<notin> set (py_str (dict_get_default entry ''result'' (JString [])))"
  shows "\<forall>l \<in> set (format_loop (Suc 0) hist []). CHR 0x0A \<notin> set l"
  using assms unfolding format_loop_from_one
  by (auto simp: step_line_def result_line_def py_str_int_no_newline dest!: set_zip_rightD split: if_splits)


text \<open>
  Claim C7, as amended. With an empty history the prompt is the template with
  \<open>No previous actions\<close> in the place of \<open>$previous_actions\<close>, so the prompt contains that
  text. The list the loop of \<open>_format_history\<close> builds has, for the \<open>k\<close>-th entry counted
  from 1, the item \<open>Step k: <action>\<close>, followed by the item \<open>  Result: <result>\<close> exactly
  when the result is truthy (not absent, \<open>None\<close>, \<open>False\<close>, zero, or an empty string, list or
  dict). For a non-empty history the transcript is these items joined by newlines, it is
  not empty, and it stands in the prompt. Exactly as many items as the history has entries
  start with \<open>Step\<close>, and the \<open>k\<close>-th of them is the step item of the \<open>k\<close>-th entry. When
  every result is a string or absent, the items are those of the specification's wording.
  When no action and no result has a newline in its text, the lines of the rendered
  transcript are the items, so exactly as many rendered lines as the history has entries
  are step lines, the \<open>k\<close>-th being \<open>Step k: <action>\<close>.
\<close>

theorem history_formatting:
  "build_action_prompt task ohtml step [] url =
     Inr (action_prompt_text0 @ task @ action_prompt_text1 @ url @ action_prompt_text2 @
          py_str_int step @ action_prompt_text3 @ ''No previous actions'' @
          action_prompt_text4 @ ohtml @ action_prompt_text5) \<and>
   (\<exists>p. build_action_prompt task ohtml step [] url = Inr p \<and> sublist ''No previous actions'' p) \<and>
   format_loop 1 hist [] =
     concat (map (\<lambda>ke. step_line (fst ke) (snd ke) #
                    (if truthy (dict_get_default (snd ke) ''result'' (JString []))
                     then [result_line (snd ke)] else []))
               (zip [1 ..< Suc (length hist)] hist)) \<and>
   (hist \<noteq> [] \<longrightarrow>
      format_history hist = join [CHR 0x0A] (format_loop 1 hist []) \<and>
      format_history hist \<noteq> [] \<and>
      build_action_prompt task ohtml step hist url =
        Inr (action_prompt_text0 @ task @ action_prompt_text1 @ url @ action_prompt_text2 @
             py_str_int step @ action_prompt_text3 @ format_history hist @
             action_prompt_text4 @ ohtml @ action_prompt_text5)) \<and>
   length (filter is_step_line (format_loop 1 hist [])) = length hist \<and>
   (\<forall>k. k < length hist \<longrightarrow>
      filter is_step_line (format_loop 1 hist []) ! k = step_line (Suc k) (hist ! k)) \<and>
   ((\<forall>entry \<in> set hist.
       dict_get entry ''result'' = JNull \<or> (\<exists>r. dict_get entry ''result'' = JString r)) \<longrightarrow>
      format_loop 1 hist [] = history_lines_spec hist) \<and>
   (hist \<noteq> [] \<longrightarrow>
    (\<forall>entry \<in> set hist.
       CHR 0x0A \<notin> set (py_str (dict_get_default entry ''action'' (JString ''unknown''))) \<and>
       CHR 0x0A \<notin> set (py_str (dict_get_default entry ''result'' (JString [])))) \<longrightarrow>
      rendered_lines (format_history hist) = format_loop 1 hist [] \<and>
      length (filter is_step_line (rendered_lines (format_history hist))) = length hist \<and>
      (\<forall>k. k < length hist \<longrightarrow>
         filter is_step_line (rendered_lines (format_history hist)) ! k =
           step_line (Suc k) (hist ! k)))"
proof (intro conjI impI allI)
  show e: "build_action_prompt task ohtml step [] url =
     Inr (action_prompt_text0 @ task @ action_prompt_text1 @ url @ action_prompt_text2 @
          py_str_int step @ action_prompt_text3 @ ''No previous actions'' @
          action_prompt_text4 @ ohtml @ action_prompt_text5)"
    by (simp add: build_action_prompt_eq format_history_def)
  have "sublist ''No previous actions''
     ((action_prompt_text0 @ task @ action_prompt_text1 @ url @ action_prompt_text2 @
          py_str_int step @ action_prompt_text3) @ ''No previous actions'' @
          (action_prompt_text4 @ ohtml @ action_prompt_text5))"
    by (rule sublist_appendI)
  with e show "\<exists>p. build_action_prompt task ohtml step [] url = Inr p \<and>
      sublist ''No previous actions'' p"
    by (simp del: sublist_append)
next
  show "format_loop 1 hist [] =
     concat (map (\<lambda>ke. step_line (fst ke) (snd ke) #
                    (if truthy (dict_get_default (snd ke) ''result'' (JString []))
                     then [result_line (snd ke)] else []))
               (zip [1 ..< Suc (length hist)] hist))"
    using format_loop_from_one [of hist] by simp
next
  assume "hist \<noteq> []"
  then show "format_history hist = join [CHR 0x0A] (format_loop 1 hist [])"
    by (simp add: format_history_def)
next
  assume "hist \<noteq> []"
  then show "format_history hist \<noteq> []" by (rule format_history_nonempty)
next
  assume "hist \<noteq> []"
  then show "build_action_prompt task ohtml step hist url =
        Inr (action_prompt_text0 @ task @ action_prompt_text1 @ url @ action_prompt_text2 @
             py_str_int step @ action_prompt_text3 @ format_history hist @
             action_prompt_text4 @ ohtml @ action_prompt_text5)"
    by (simp add: build_action_prompt_eq format_history_nonempty)
next
  show "length (filter is_step_line (format_loop 1 hist [])) = length hist"
    by (simp add: step_lines_of_loop del: upt_Suc)
next
  fix k assume "k < length hist"
  then show "filter is_step_line (format_loop 1 hist []) ! k = step_line (Suc k) (hist ! k)"
    by (simp add: step_lines_of_loop nth_upt del: upt_Suc)
next
  assume "\<forall>entry \<in> set hist.
       dict_get entry ''result'' = JNull \<or> (\<exists>r. dict_get entry ''result'' = JString r)"
  then show "format_loop 1 hist [] = history_lines_spec hist"
    using format_loop_spec_on_strings [of hist] by simp
next
  assume n: "hist \<noteq> []"
    and nl: "\<forall>entry \<in> set hist.
       CHR 0x0A \<notin> set (py_str (dict_get_default entry ''action'' (JString ''unknown''))) \<and>
       CHR 0x0A \<notin> set (py_str (dict_get_default entry ''result'' (JString [])))"
  from n have f: "format_history hist = join [CHR 0x0A] (format_loop (Suc 0) hist [])"
    by (simp add: format_history_def)
  from format_loop_nonempty [OF n] format_loop_no_newline [OF nl]
  have r: "rendered_lines (format_history hist) = format_loop (Suc 0) hist []"
    unfolding f by (intro rendered_lines_join) simp_all
  then show "rendered_lines (format_history hist) = format_loop 1 hist []" by simp
  from r show "length (filter is_step_line (rendered_lines (format_history hist))) = length hist"
    by (simp add: step_lines_of_loop del: upt_Suc)
  fix k assume "k < length hist"
  with r show "filter is_step_line (rendered_lines (format_history hist)) ! k =
      step_line (Suc k) (hist ! k)"
    by (simp add: step_lines_of_loop nth_upt del: upt_Suc)
qed

text \<open>
  Claim C7 as stated fails twice. A history of one entry whose action text is
  \<open>click #a\<close>, a newline, \<open>Step 2: click #b\<close> is rendered with two lines that start with
  \<open>Step\<close>. An entry with the result 0, which is not empty, gets no result line, where the
  specification's wording gives it one.
\<close>

theorem history_formatting_counterexample:
  "length newline_history = 1 \<and>
   format_loop 1 newline_history [] = [''Step 1: click #a'' @ [CHR 0x0A] @ ''Step 2: click #b''] \<and>
   format_history newline_history = ''Step 1: click #a'' @ [CHR 0x0A] @ ''Step 2: click #b'' \<and>
   filter is_step_line (rendered_lines (format_history newline_history)) =
     [''Step 1: click #a'', ''Step 2: click #b''] \<and>
   length (filter is_step_line (rendered_lines (format_history newline_history))) = 2 \<and>
   dict_get (hd zero_result_history) ''result'' = JInt 0 \<and>
   nonempty_spec (JInt 0) \<and>
   history_lines_spec zero_result_history = [''Step 1: click #a'', ''  Result: 0''] \<and>
   format_loop 1 zero_result_history [] = [''Step 1: click #a''] \<and>
   format_history zero_result_history = ''Step 1: click #a''"
  by (intro conjI; code_simp)


lemma example_history_lines:
  "format_loop 1 example_history [] =
     [''Step 1: navigate https://example.com'', ''  Result: Page loaded'',
      ''Step 2: click #login-btn'']"
  by code_simp

lemma join_example:
  "join [CHR 0x0A]
     [''Step 1: navigate https://example.com'', ''  Result: Page loaded'',
      ''Step 2: click #login-btn''] = example_transcript"
  by (simp add: example_transcript_def)

text \<open>
  Claim C7 as amended, at a history of two entries, the first with a result and the second
  without.
\<close>

theorem history_formatting_witness:
  "example_history \<noteq> [] \<and>
   length example_history = 2 \<and>
   format_history example_history = example_transcript \<and>
   format_loop 1 example_history [] = history_lines_spec example_history \<and>
   rendered_lines example_transcript =
     [''Step 1: navigate https://example.com'', ''  Result: Page loaded'',
      ''Step 2: click #login-btn''] \<and>
   length (filter is_step_line (rendered_lines example_transcript)) = 2 \<and>
   filter is_step_line (rendered_lines example_transcript) ! 0 =
     ''Step 1: navigate https://example.com'' \<and>
   filter is_step_line (rendered_lines example_transcript) ! 1 = ''Step 2: click #login-btn'' \<and>
   build_action_prompt ''Click on the login button'' ''<html></html>'' 0 [] ''https://example.com'' =
     Inr (action_prompt_text0 @ ''Click on the login button'' @ action_prompt_text1 @
          ''https://example.com'' @ action_prompt_text2 @ ''0'' @ action_prompt_text3 @
          ''No previous actions'' @ action_prompt_text4 @ ''<html></html>'' @ action_prompt_text5)"
proof -
  note h = history_formatting [where task = "''Click on the login button''"
      and ohtml = "''<html></html>''" and step = 0 and url = "''https://example.com''"
      and hist = example_history]
  have n: "example_history \<noteq> []" and len: "length example_history = 2"
    by (simp_all add: example_history_def)
  have str: "\<forall>entry \<in> set example_history.
       dict_get entry ''result'' = JNull \<or> (\<exists>r. dict_get entry ''result'' = JString r)"
    by (simp add: example_history_def dict_get_def)
  have nl: "\<forall>entry \<in> set example_history.
       CHR 0x0A \<notin> set (py_str (dict_get_default entry ''action'' (JString ''unknown''))) \<and>
       CHR 0x0A \<notin> set (py_str (dict_get_default entry ''result'' (JString [])))"
    by (simp add: example_history_def dict_get_default_def)
  from h n have "format_history example_history = join [CHR 0x0A] (format_loop 1 example_history [])"
    by blast
  then have f: "format_history example_history = example_transcript"
    by (simp only: example_history_lines join_example)
  from h str have sp: "format_loop 1 example_history [] = history_lines_spec example_history"
    by blast
  from h n nl have r: "rendered_lines (format_history example_history) = format_loop 1 example_history []"
    and c: "length (filter is_step_line (rendered_lines (format_history example_history))) =
      length example_history"
    and s: "\<forall>k. k < length example_history \<longrightarrow>
         filter is_step_line (rendered_lines (format_history example_history)) ! k =
           step_line (Suc k) (example_history ! k)"
    by blast+
  from r have r': "rendered_lines example_transcript =
     [''Step 1: navigate https://example.com'', ''  Result: Page loaded'',
      ''Step 2: click #login-btn'']"
    by (simp only: f example_history_lines)
  from c have c': "length (filter is_step_line (rendered_lines example_transcript)) = 2"
    by (simp only: f len)
  have k: "0 < length example_history" "1 < length example_history" by (simp_all add: len)
  from s k have s0: "filter is_step_line (rendered_lines (format_history example_history)) ! 0 =
      step_line (Suc 0) (example_history ! 0)"
    and s1: "filter is_step_line (rendered_lines (format_history example_history)) ! 1 =
      step_line (Suc 1) (example_history ! 1)"
    by blast+
  have l0: "step_line (Suc 0) (example_history ! 0) = ''Step 1: navigate https://example.com''"
    and l1: "step_line (Suc 1) (example_history ! 1) = ''Step 2: click #login-btn''"
    by code_simp+
  from s0 l0 have t0: "filter is_step_line (rendered_lines example_transcript) ! 0 =
     ''Step 1: navigate https://example.com''" by (simp only: f)
  from s1 l1 have t1: "filter is_step_line (rendered_lines example_transcript) ! 1 =
     ''Step 2: click #login-btn''" by (simp only: f)
  have z: "py_str_int 0 = ''0''" by code_simp
  from h have p: "build_action_prompt ''Click on the login button'' ''<html></html>'' 0 []
      ''https://example.com'' =
     Inr (action_prompt_text0 @ ''Click on the login button'' @ action_prompt_text1 @
          ''https://example.com'' @ action_prompt_text2 @ ''0'' @ action_prompt_text3 @
          ''No previous actions'' @ action_prompt_text4 @ ''<html></html>'' @ action_prompt_text5)"
    by (simp only: z)
  from n len f sp r' c' t0 t1 p show ?thesis by blast
qed

text \<open>
  Claim C2. When reduction returns \<open>h\<close> and generation returns \<open>a\<close>, the handler answers
  200 with the parser's output for \<open>a\<close> as \<open>action\<close> and the request's \<open>task_id\<close> and
  \<open>step_index\<close>. When reduction, generation or parsing raises \<open>e\<close>, it answers 500 with the
  detail \<open>Error processing action: \<close> followed by \<open>str(e)\<close>.
\<close>

theorem act_response:
  "(optimize ho (snapshot_html req) (start_url req) (Some (prompt req)) = Inr h \<longrightarrow>
    generate_action ag (prompt req) h (step_index req) (history req) (start_url req) = Inr a \<longrightarrow>
      (\<exists>out. parse_action lib a = Inr out \<and>
         act lib ho ag req =
           HTTP_200 \<lparr>resp_action = out, resp_task_id = task_id req,
                     resp_step_index = step_index req\<rparr>)) \<and>
   (optimize ho (snapshot_html req) (start_url req) (Some (prompt req)) = Inl e \<longrightarrow>
      act lib ho ag req = HTTP_500 (''Error processing action: '' @ exn_str e)) \<and>
   (optimize ho (snapshot_html req) (start_url req) (Some (prompt req)) = Inr h \<longrightarrow>
    generate_action ag (prompt req) h (step_index req) (history req) (start_url req) = Inl e \<longrightarrow>
      act lib ho ag req = HTTP_500 (''Error processing action: '' @ exn_str e)) \<and>
   (optimize ho (snapshot_html req) (start_url req) (Some (prompt req)) = Inr h \<longrightarrow>
    generate_action ag (prompt req) h (step_index req) (history req) (start_url req) = Inr a \<longrightarrow>
    parse_action lib a = Inl e \<longrightarrow>
      act lib ho ag req = HTTP_500 (''Error processing action: '' @ exn_str e))"
proof (intro conjI impI)
  assume o: "optimize ho (snapshot_html req) (start_url req) (Some (prompt req)) = Inr h"
    and g: "generate_action ag (prompt req) h (step_index req) (history req) (start_url req) = Inr a"
  from parse_action_returns obtain out where p: "parse_action lib a = Inr out" by blast
  with o g have "act lib ho ag req =
      HTTP_200 \<lparr>resp_action = out, resp_task_id = task_id req, resp_step_index = step_index req\<rparr>"
    by (simp add: act_def act_body_def)
  with p show "\<exists>out. parse_action lib a = Inr out \<and>
         act lib ho ag req =
           HTTP_200 \<lparr>resp_action = out, resp_task_id = task_id req,
                     resp_step_index = step_index req\<rparr>"
    by blast
next
  assume "optimize ho (snapshot_html req) (start_url req) (Some (prompt req)) = Inl e"
  then show "act lib ho ag req = HTTP_500 (''Error processing action: '' @ exn_str e)"
    by (simp add: act_def act_body_def)
next
  assume "optimize ho (snapshot_html req) (start_url req) (Some (prompt req)) = Inr h"
    "generate_action ag (prompt req) h (step_index req) (history req) (start_url req) = Inl e"
  then show "act lib ho ag req = HTTP_500 (''Error processing action: '' @ exn_str e)"
    by (simp add: act_def act_body_def)
next
  assume "optimize ho (snapshot_html req) (start_url req) (Some (prompt req)) = Inr h"
    "generate_action ag (prompt req) h (step_index req) (history req) (start_url req) = Inr a"
    "parse_action lib a = Inl e"
  then show "act lib ho ag req = HTTP_500 (''Error processing action: '' @ exn_str e)"
    by (simp add: act_def act_body_def)
qed

lemma optimize_fixed:
  "optimize (fixed_client hr ar) html url ctx = Inr (strip hr)"
  using build_optimization_prompt_returns [of html url ctx]
  by (auto simp: optimize_def generate_def fixed_client_def)

lemma generate_action_fixed:
  "generate_action (fixed_client hr ar) task ohtml step hist url = Inr (strip ar)"
  by (simp add: generate_action_def generate_def fixed_client_def build_action_prompt_eq)

lemma optimize_failing:
  "optimize (failing_client m) html url ctx = Inl (ProviderError m)"
  using build_optimization_prompt_returns [of html url ctx]
  by (auto simp: optimize_def generate_def failing_client_def)

lemma generate_action_failing:
  "generate_action (failing_client m) task ohtml step hist url = Inl (ProviderError m)"
  by (simp add: generate_action_def generate_def failing_client_def build_action_prompt_eq)

lemma parse_click_text: "parse_action example_lib click_text = Inr click_rendered"
  using parse_action_decoded [OF click_text_nonempty example_loads(1)]
  by (simp add: build_click_json render_click_example del: render.simps)

text \<open>
  Claim C2, at the example request: a 200 answer with the rendered click, and a 500 answer
  when the provider call of the reducer, or of the generator, fails.
\<close>

theorem act_response_witness:
  "act example_lib (fixed_client html_reply ('' '' @ click_text @ [CHR 0x0A]))
     (fixed_client html_reply ('' '' @ click_text @ [CHR 0x0A])) example_request =
     HTTP_200 \<lparr>resp_action = click_rendered, resp_task_id = ''task_123'', resp_step_index = 0\<rparr> \<and>
   act example_lib (failing_client ''Connection error.'')
     (fixed_client html_reply ('' '' @ click_text @ [CHR 0x0A])) example_request =
     HTTP_500 ''Error processing action: Connection error.'' \<and>
   act example_lib (fixed_client html_reply ('' '' @ click_text @ [CHR 0x0A]))
     (failing_client ''Connection error.'') example_request =
     HTTP_500 ''Error processing action: Connection error.''"
proof -
  let ?c = "fixed_client html_reply ('' '' @ click_text @ [CHR 0x0A])"
  let ?f = "failing_client ''Connection error.''"
  let ?h = "''<html><body><button>Login</button></body></html>''"
  have o: "optimize ?c (snapshot_html example_request) (start_url example_request)
      (Some (prompt example_request)) = Inr ?h"
    by (simp only: optimize_fixed strip_html_reply)
  have g: "\<And>hh. generate_action ?c (prompt example_request) hh (step_index example_request)
      (history example_request) (start_url example_request) = Inr click_text"
    by (simp only: generate_action_fixed strip_click_reply)
  have of: "optimize ?f (snapshot_html example_request) (start_url example_request)
      (Some (prompt example_request)) = Inl (ProviderError ''Connection error.'')"
    by (rule optimize_failing)
  have gf: "\<And>hh. generate_action ?f (prompt example_request) hh (step_index example_request)
      (history example_request) (start_url example_request) = Inl (ProviderError ''Connection error.'')"
    by (rule generate_action_failing)
  from act_response [of ?c example_request ?h ?c click_text example_lib]
  have "\<exists>out. parse_action example_lib click_text = Inr out \<and>
         act example_lib ?c ?c example_request =
           HTTP_200 \<lparr>resp_action = out, resp_task_id = task_id example_request,
                     resp_step_index = step_index example_request\<rparr>"
    using o g by blast
  then have ok: "act example_lib ?c ?c example_request =
     HTTP_200 \<lparr>resp_action = click_rendered, resp_task_id = ''task_123'', resp_step_index = 0\<rparr>"
    by (auto simp: parse_click_text example_request_def)
  from act_response [of ?f example_request ?h ?c click_text example_lib "ProviderError ''Connection error.''"]
  have e1: "act example_lib ?f ?c example_request =
      HTTP_500 (''Error processing action: '' @ exn_str (ProviderError ''Connection error.''))"
    using of by blast
  from act_response [of ?c example_request ?h ?f click_text example_lib "ProviderError ''Connection error.''"]
  have e2: "act example_lib ?c ?f example_request =
      HTTP_500 (''Error processing action: '' @ exn_str (ProviderError ''Connection error.''))"
    using o gf by blast
  from ok e1 e2 show ?thesis by simp
qed

end
